theory Spec2Isabelle
  imports Complex_Main "HOL-Library.Sublist"
begin

section \<open>Strings and arrays of the dashboard script\<close>

text \<open>
  Symbols, queries and error texts are JavaScript strings. A string is modelled by the
  bytes of its UTF-8 encoding, as a \<^typ>\<open>string\<close>: an ASCII character is one byte below
  128, every other character is a sequence of bytes from 128 upwards. Two well-formed
  texts contain one another as UTF-8 bytes exactly when they do as JavaScript strings.
\<close>

definition is_ascii :: "char \<Rightarrow> bool" where
  "is_ascii c = (of_char c < (128::nat))"

text \<open>
  \<open>String.prototype.toUpperCase\<close> follows the Unicode case table of the runtime. On
  ASCII the table is fixed: the letters \<open>a\<close> to \<open>z\<close> become \<open>A\<close> to \<open>Z\<close> and every other
  ASCII character stays. The table for the other characters is not part of the script;
  it is the parameter \<open>ucase\<close>, which gives the upper-cased text of a text without ASCII
  characters (for the sharp s, two capital letters S). Upper-casing works character by
  character, so the string is cut into ASCII characters and maximal runs of other
  bytes; \<open>upper_from\<close> walks the string with the run collected so far.
\<close>

definition upper_char :: "char \<Rightarrow> char" where
  "upper_char c =
     (case map_of (zip ''abcdefghijklmnopqrstuvwxyz'' ''ABCDEFGHIJKLMNOPQRSTUVWXYZ'') c of
        Some u \<Rightarrow> u
      | None \<Rightarrow> c)"

definition flush :: "(string \<Rightarrow> string) \<Rightarrow> string \<Rightarrow> string" where
  "flush ucase run = (if run = [] then [] else ucase run)"

fun upper_from :: "(string \<Rightarrow> string) \<Rightarrow> string \<Rightarrow> string \<Rightarrow> string" where
  "upper_from ucase run [] = flush ucase run"
| "upper_from ucase run (c # cs) =
     (if is_ascii c then flush ucase run @ upper_char c # upper_from ucase [] cs
      else upper_from ucase (run @ [c]) cs)"

definition toUpperCase :: "(string \<Rightarrow> string) \<Rightarrow> string \<Rightarrow> string" where
  "toUpperCase ucase s = upper_from ucase [] s"

text \<open>
  \<open>String.prototype.includes\<close>: the search string occurs at some position of the
  receiver. The search walks the receiver from the left and tests, at every position,
  whether the search string starts there.
\<close>

fun starts_with :: "string \<Rightarrow> string \<Rightarrow> bool" where
  "starts_with s [] = True"
| "starts_with [] (q # qs) = False"
| "starts_with (c # cs) (q # qs) = (c = q \<and> starts_with cs qs)"

fun str_includes :: "string \<Rightarrow> string \<Rightarrow> bool" where
  "str_includes [] q = starts_with [] q"
| "str_includes (c # cs) q = (starts_with (c # cs) q \<or> str_includes cs q)"

text \<open>
  \<open>Array.prototype.includes\<close> on an array of strings is membership;
  \<open>indexOf\<close> followed by \<open>splice(index, 1)\<close> removes the first occurrence, if any;
  \<open>push\<close> appends at the end.
\<close>

definition array_includes :: "string list \<Rightarrow> string \<Rightarrow> bool" where
  "array_includes xs x = (x \<in> set xs)"

definition splice_first :: "string \<Rightarrow> string list \<Rightarrow> string list" where
  "splice_first x xs = remove1 x xs"

definition push :: "'a list \<Rightarrow> 'a \<Rightarrow> 'a list" where
  "push xs x = xs @ [x]"

text \<open>\<open>Element.remove()\<close> on the \<open>i\<close>-th child of a container.\<close>

definition remove_child :: "nat \<Rightarrow> 'a list \<Rightarrow> 'a list" where
  "remove_child i xs = take i xs @ drop (Suc i) xs"

section \<open>Numbers\<close>

text \<open>
  Numbers that arrive in a JSON body are finite. They are modelled as exact rationals;
  the rounding of IEEE doubles is not part of the model. Division in JavaScript never
  raises: a zero divisor gives \<open>Infinity\<close>, \<open>-Infinity\<close> or \<open>NaN\<close>, which is written out.
\<close>

datatype jsnum = Fin rat | PosInf | NegInf | NaN

definition js_div :: "rat \<Rightarrow> rat \<Rightarrow> jsnum" where
  "js_div a b =
     (if b \<noteq> 0 then Fin (a / b)
      else if 0 < a then PosInf
      else if a < 0 then NegInf
      else NaN)"

fun js_times :: "jsnum \<Rightarrow> rat \<Rightarrow> jsnum" where
  "js_times (Fin a) b = Fin (a * b)"
| "js_times PosInf b = (if 0 < b then PosInf else if b < 0 then NegInf else NaN)"
| "js_times NegInf b = (if 0 < b then NegInf else if b < 0 then PosInf else NaN)"
| "js_times NaN b = NaN"

text \<open>
  The text of a rendered cell. \<open>Fixed x d\<close> stands for \<open>x.toFixed(d)\<close> and
  \<open>FixedPct x d\<close> for that text followed by a percent sign; the decimal digits themselves
  are not expanded. \<open>Count n\<close> is a number assigned to \<open>textContent\<close>.
\<close>

datatype cell = Txt string | Count nat | Fixed jsnum nat | FixedPct jsnum nat

section \<open>Backend payloads\<close>

text \<open>
  A field that may be absent (\<open>null\<close>, \<open>undefined\<close> or missing) is an \<open>option\<close>.
  The guards of the script test truthiness: an absent value is falsy, and so are the
  number zero and the empty string.
\<close>

fun truthy_num :: "rat option \<Rightarrow> bool" where
  "truthy_num None = False"
| "truthy_num (Some x) = (x \<noteq> 0)"

fun truthy_str :: "string option \<Rightarrow> bool" where
  "truthy_str None = False"
| "truthy_str (Some s) = (s \<noteq> [])"

datatype timestamp = EpochMs int | IsoText string

record stats_data =
  total_trades :: nat
  win_rate :: rat
  avg_profit :: rat
  max_drawdown :: rat

record position_data =
  symbol :: string
  position :: "string option"
  entry_price :: "rat option"
  position_size :: "rat option"
  stop_loss :: "rat option"
  take_profit_levels :: "rat list option"

record price_point =
  price_timestamp :: timestamp
  close :: rat

record tdi_point =
  tdi_timestamp :: timestamp
  rsi :: rat
  fast_line :: rat
  slow_line :: rat
  market_baseline :: rat
  upper_band :: rat
  lower_band :: rat

record trade =
  entry_time :: timestamp
  exit_time :: timestamp
  direction :: string
  trade_entry_price :: rat
  exit_price :: rat
  trade_position_size :: rat
  pnl_pct :: rat
  exit_reason :: string

record performance =
  stats :: stats_data
  current_position :: position_data
  price_data :: "price_point list"
  tdi_data :: "tdi_point list"
  trades :: "trade list option"

text \<open>The body of a performance response: the payload, or an object with an \<open>error\<close> text.\<close>

datatype performance_body = ErrorBody string | Payload performance

text \<open>The body of a save or strategy response: \<open>{success, action?, error?}\<close>.\<close>

datatype json_text = Missing | Null | Text string

record outcome =
  success :: bool
  action :: json_text
  error :: json_text

text \<open>
  What a \<open>fetch\<close> settles with: the transport fails, or a response arrives with its
  status and, when \<open>response.json()\<close> can parse it, its body. \<open>response.ok\<close> is true
  exactly for the statuses 200 to 299.
\<close>

datatype 'a fetched = NetworkFailure | Response nat "'a option"

definition ok :: "nat \<Rightarrow> bool" where
  "ok status = (200 \<le> status \<and> status \<le> 299)"

text \<open>
  A value interpolated into a message: a missing field prints as \<open>undefined\<close>, a JSON
  \<open>null\<close> as \<open>null\<close>, a text as itself.
\<close>

fun interpolate :: "json_text \<Rightarrow> string" where
  "interpolate Missing = ''undefined''"
| "interpolate Null = ''null''"
| "interpolate (Text s) = s"

section \<open>The page state\<close>

text \<open>
  A list container of the page either shows its placeholder paragraph or holds the
  item elements, in document order, each labelled with the symbol it was created for.
\<close>

datatype listing = Placeholder | Items "string list"

fun items :: "listing \<Rightarrow> string list" where
  "items Placeholder = []"
| "items (Items xs) = xs"

text \<open>A chart surface: the time axis (one label per timestamp) and the named series.\<close>

record chart =
  labels :: "timestamp list"
  datasets :: "(string \<times> rat list) list"

text \<open>
  The content of the current-position region: the loading badge, the no-position
  notice for a symbol, the position table (badge class, badge text, symbol, entry price,
  position size, stop loss, take profit, risk/reward), or the error panel (message,
  additional information, symbol of the retry button).
\<close>

datatype panel =
    LoadingBadge
  | NoActivePosition string
  | PositionTable string string string cell cell cell cell cell
  | ErrorPanel string string string

record trade_row =
  row_entry_time :: timestamp
  row_exit_time :: timestamp
  row_direction :: string
  row_entry_price :: cell
  row_exit_price :: cell
  row_position_size :: cell
  row_pnl_class :: string
  row_pnl_text :: cell
  row_exit_reason :: string

datatype history = LoadingRow | NoHistoryRow | Rows "trade_row list"

text \<open>
  A control of the configuration form. \<open>Other\<close> stands for the text, password and number
  inputs and the single selects, which all submit one entry with their value.
\<close>

datatype control_type = Checkbox | Other

record control =
  ctl_name :: string
  ctl_type :: control_type
  ctl_value :: string
  ctl_checked :: bool
  ctl_disabled :: bool

text \<open>
  The globals of the script (\<open>priceChart\<close>, \<open>tdiChart\<close>, \<open>availableSymbols\<close>,
  \<open>selectedSymbols\<close>, \<open>currentSymbol\<close>) and the parts of the document the script reads
  and writes, named after their element ids with the suffix \<open>_el\<close>. \<open>alerts\<close> is the log
  of \<open>showAlert\<close> calls (message, type); \<open>loading\<close> holds the ids that carry the loading
  indicator.
\<close>

record page =
  priceChart :: "chart option"
  tdiChart :: "chart option"
  availableSymbols :: "string list"
  selectedSymbols :: "string list"
  currentSymbol :: string
  available_symbols_el :: listing
  selected_symbols_el :: listing
  symbol_search_el :: string
  performance_symbol_el :: "string list"
  active_symbols_count_el :: cell
  open_positions_count_el :: cell
  total_trades_count_el :: cell
  win_rate_el :: cell
  symbol_total_trades_el :: cell
  symbol_win_rate_el :: cell
  symbol_avg_profit_el :: cell
  symbol_max_drawdown_el :: cell
  current_position_el :: panel
  trade_history_el :: history
  config_form_el :: "control list"
  alerts :: "(string \<times> string) list"
  loading :: "string list"

definition showLoading :: "string \<Rightarrow> page \<Rightarrow> page" where
  "showLoading elementId st = st\<lparr>loading := List.insert elementId (loading st)\<rparr>"

definition hideLoading :: "string \<Rightarrow> page \<Rightarrow> page" where
  "hideLoading elementId st = st\<lparr>loading := removeAll elementId (loading st)\<rparr>"

definition showAlert :: "string \<Rightarrow> string \<Rightarrow> page \<Rightarrow> page" where
  "showAlert message type st = st\<lparr>alerts := alerts st @ [(message, type)]\<rparr>"

text \<open>\<open>updateDashboardStats()\<close>: the active-symbol count, and placeholders for the rest.\<close>

definition updateDashboardStats :: "page \<Rightarrow> page" where
  "updateDashboardStats st =
     st\<lparr>active_symbols_count_el := Count (length (selectedSymbols st)),
        open_positions_count_el := Txt ''0'',
        total_trades_count_el := Txt ''0'',
        win_rate_el := Txt ''0%''\<rparr>"

section \<open>Symbol lists\<close>

text \<open>
  \<open>updateAvailableSymbolsList(symbols)\<close> empties the container and either writes the
  placeholder or appends one clickable item per symbol.
\<close>

definition updateAvailableSymbolsList :: "string list \<Rightarrow> page \<Rightarrow> page" where
  "updateAvailableSymbolsList symbols st =
     (if length symbols = 0 then st\<lparr>available_symbols_el := Placeholder\<rparr>
      else st\<lparr>available_symbols_el := Items symbols\<rparr>)"

text \<open>
  \<open>updateSelectedSymbolsList()\<close> re-renders the selected list from \<open>selectedSymbols\<close>.
  With an empty array it writes the placeholder and returns before the active-symbol
  count is written.
\<close>

definition updateSelectedSymbolsList :: "page \<Rightarrow> page" where
  "updateSelectedSymbolsList st =
     (if length (selectedSymbols st) = 0 then st\<lparr>selected_symbols_el := Placeholder\<rparr>
      else st\<lparr>selected_symbols_el := Items (selectedSymbols st),
               active_symbols_count_el := Count (length (selectedSymbols st))\<rparr>)"

text \<open>
  \<open>filterSymbols(query)\<close>. Like every function that reaches \<open>toUpperCase\<close>, it carries
  the case table of the runtime as its first argument.
\<close>

definition filterSymbols :: "(string \<Rightarrow> string) \<Rightarrow> string \<Rightarrow> page \<Rightarrow> page" where
  "filterSymbols ucase query st =
     (let query = toUpperCase ucase query;
          filteredSymbols =
            filter (\<lambda>symbol. \<not> array_includes (selectedSymbols st) symbol \<and> str_includes symbol query)
              (availableSymbols st)
      in updateAvailableSymbolsList filteredSymbols st)"

text \<open>The \<open>input\<close> listener of the search box: the box holds the typed text, then the filter runs.\<close>

definition search_input :: "(string \<Rightarrow> string) \<Rightarrow> string \<Rightarrow> page \<Rightarrow> page" where
  "search_input ucase v st = filterSymbols ucase v (st\<lparr>symbol_search_el := v\<rparr>)"

text \<open>
  The click listener of the \<open>i\<close>-th item of the available list, created for \<open>symbol\<close>.
  A position that holds no item has no listener, so nothing happens there.
\<close>

definition available_item_click :: "nat \<Rightarrow> page \<Rightarrow> page" where
  "available_item_click i st =
     (if i < length (items (available_symbols_el st)) then
        (let symbol = items (available_symbols_el st) ! i in
         if \<not> array_includes (selectedSymbols st) symbol then
           updateSelectedSymbolsList
             (st\<lparr>selectedSymbols := push (selectedSymbols st) symbol,
                 available_symbols_el := Items (remove_child i (items (available_symbols_el st)))\<rparr>)
         else st)
      else st)"

text \<open>
  The click listener of the remove button of the \<open>j\<close>-th item of the selected list.
\<close>

definition remove_button_click :: "(string \<Rightarrow> string) \<Rightarrow> nat \<Rightarrow> page \<Rightarrow> page" where
  "remove_button_click ucase j st =
     (if j < length (items (selected_symbols_el st)) then
        (let symbol = items (selected_symbols_el st) ! j;
             st1 = st\<lparr>selectedSymbols := splice_first symbol (selectedSymbols st)\<rparr>;
             st2 = updateSelectedSymbolsList st1;
             st3 = (if \<not> array_includes (availableSymbols st2) symbol
                    then st2\<lparr>availableSymbols := push (availableSymbols st2) symbol\<rparr>
                    else st2)
         in filterSymbols ucase (symbol_search_el st3) st3)
      else st)"

text \<open>
  The load sequence. \<open>loadTradingSymbols_then\<close> is the handler of the selected-symbols
  response: it replaces \<open>selectedSymbols\<close>, re-renders the selected list, rebuilds the
  performance-symbol chooser and starts the universe request (\<open>loadAvailableSymbols\<close>
  shows the loading indicator and issues the request). \<open>loadAvailableSymbols_then\<close> is
  the handler of the universe response.
\<close>

definition loadAvailableSymbols :: "page \<Rightarrow> page" where
  "loadAvailableSymbols st = showLoading ''available-symbols'' st"

definition loadAvailableSymbols_then :: "string list \<Rightarrow> page \<Rightarrow> page" where
  "loadAvailableSymbols_then data st =
     (let st1 = st\<lparr>availableSymbols := data\<rparr>;
          filteredSymbols =
            filter (\<lambda>symbol. \<not> array_includes (selectedSymbols st1) symbol) (availableSymbols st1)
      in hideLoading ''available-symbols'' (updateAvailableSymbolsList filteredSymbols st1))"

definition loadTradingSymbols_then :: "string list \<Rightarrow> page \<Rightarrow> page" where
  "loadTradingSymbols_then data st =
     (let st1 = updateSelectedSymbolsList (st\<lparr>selectedSymbols := data\<rparr>);
          st2 = st1\<lparr>performance_symbol_el := data\<rparr>
      in loadAvailableSymbols st2)"

definition load_sequence :: "string list \<Rightarrow> string list \<Rightarrow> page \<Rightarrow> page" where
  "load_sequence selected universe st =
     loadAvailableSymbols_then universe (loadTradingSymbols_then selected st)"

text \<open>User operations on the symbol lists, and a run of them.\<close>

datatype symbol_op = Select nat | Deselect nat | Filter string

fun apply_op :: "(string \<Rightarrow> string) \<Rightarrow> page \<Rightarrow> symbol_op \<Rightarrow> page" where
  "apply_op ucase st (Select i) = available_item_click i st"
| "apply_op ucase st (Deselect j) = remove_button_click ucase j st"
| "apply_op ucase st (Filter q) = search_input ucase q st"

definition run_ops :: "(string \<Rightarrow> string) \<Rightarrow> page \<Rightarrow> symbol_op list \<Rightarrow> page" where
  "run_ops ucase st ops = foldl (apply_op ucase) st ops"

text \<open>The page before anything has loaded: the script's initial globals, an empty document.\<close>

definition initial_page :: page where
  "initial_page =
     \<lparr>priceChart = None, tdiChart = None, availableSymbols = [], selectedSymbols = [],
      currentSymbol = [], available_symbols_el = Items [], selected_symbols_el = Items [],
      symbol_search_el = [], performance_symbol_el = [],
      active_symbols_count_el = Txt ''0'', open_positions_count_el = Txt ''0'',
      total_trades_count_el = Txt ''0'', win_rate_el = Txt ''0%'',
      symbol_total_trades_el = Txt ''0'', symbol_win_rate_el = Txt ''0%'',
      symbol_avg_profit_el = Txt ''0%'', symbol_max_drawdown_el = Txt ''0%'',
      current_position_el = LoadingBadge, trade_history_el = LoadingRow,
      config_form_el = [], alerts = [], loading = []\<rparr>"

section \<open>Performance rendering\<close>

text \<open>\<open>updatePerformanceStats(stats)\<close>.\<close>

definition updatePerformanceStats :: "stats_data \<Rightarrow> page \<Rightarrow> page" where
  "updatePerformanceStats s st =
     st\<lparr>symbol_total_trades_el := Count (total_trades s),
        symbol_win_rate_el := FixedPct (Fin (win_rate s * 100)) 2,
        symbol_avg_profit_el := FixedPct (Fin (avg_profit s * 100)) 2,
        symbol_max_drawdown_el := FixedPct (Fin (max_drawdown s * 100)) 2\<rparr>"

text \<open>
  \<open>calculateRiskReward(position)\<close>. The guard returns the not-available marker when
  the direction, the entry price or the stop loss is falsy, or when the take-profit
  levels are absent or empty. Otherwise the first take-profit level is used; every
  direction other than \<open>long\<close> takes the short branch.
\<close>

definition calculateRiskReward :: "position_data \<Rightarrow> cell" where
  "calculateRiskReward p =
     (if \<not> truthy_str (position p) \<or> \<not> truthy_num (entry_price p) \<or> \<not> truthy_num (stop_loss p)
         \<or> take_profit_levels p = None \<or> length (the (take_profit_levels p)) = 0
      then Txt ''N/A''
      else
        (let entryPrice = the (entry_price p);
             stopLoss = the (stop_loss p);
             takeProfit = hd (the (take_profit_levels p))
         in if position p = Some ''long''
            then (let risk = entryPrice - stopLoss; reward = takeProfit - entryPrice
                  in Fixed (js_div reward risk) 2)
            else (let risk = stopLoss - entryPrice; reward = entryPrice - takeProfit
                  in Fixed (js_div reward risk) 2)))"

text \<open>A number cell of the position table: \<open>x ? x.toFixed(d) : 'N/A'\<close>.\<close>

definition fixed_or_na :: "rat option \<Rightarrow> nat \<Rightarrow> cell" where
  "fixed_or_na x d = (if truthy_num x then Fixed (Fin (the x)) d else Txt ''N/A'')"

definition take_profit_cell :: "rat list option \<Rightarrow> cell" where
  "take_profit_cell tps =
     (case tps of
        None \<Rightarrow> Txt ''N/A''
      | Some [] \<Rightarrow> Txt ''N/A''
      | Some (t # ts) \<Rightarrow> Fixed (Fin t) 2)"

text \<open>\<open>updateCurrentPosition(position)\<close>.\<close>

definition updateCurrentPosition :: "position_data \<Rightarrow> page \<Rightarrow> page" where
  "updateCurrentPosition p st =
     (if \<not> truthy_str (position p) then
        st\<lparr>current_position_el := NoActivePosition (symbol p)\<rparr>
      else
        (let positionType = (if position p = Some ''long'' then ''Long'' else ''Short'');
             badgeClass = (if position p = Some ''long'' then ''position-long'' else ''position-short'')
         in st\<lparr>current_position_el :=
                  PositionTable badgeClass positionType (symbol p)
                    (fixed_or_na (entry_price p) 2)
                    (fixed_or_na (position_size p) 6)
                    (fixed_or_na (stop_loss p) 2)
                    (take_profit_cell (take_profit_levels p))
                    (calculateRiskReward p)\<rparr>))"

text \<open>
  \<open>updatePriceChart\<close> and \<open>updateTDIChart\<close> destroy the chart the global holds, if any,
  and store a new one built from the series.
\<close>

definition updatePriceChart :: "price_point list \<Rightarrow> page \<Rightarrow> page" where
  "updatePriceChart priceData st =
     st\<lparr>priceChart :=
          Some \<lparr>labels = map price_timestamp priceData,
                datasets = [(''Price'', map close priceData)]\<rparr>\<rparr>"

definition updateTDIChart :: "tdi_point list \<Rightarrow> page \<Rightarrow> page" where
  "updateTDIChart tdiData st =
     st\<lparr>tdiChart :=
          Some \<lparr>labels = map tdi_timestamp tdiData,
                datasets =
                  [(''RSI'', map rsi tdiData),
                   (''Fast Line'', map fast_line tdiData),
                   (''Slow Line'', map slow_line tdiData),
                   (''Market Baseline'', map market_baseline tdiData),
                   (''Upper Band'', map upper_band tdiData),
                   (''Lower Band'', map lower_band tdiData)]\<rparr>\<rparr>"

text \<open>One row of the trade table.\<close>

definition render_trade :: "trade \<Rightarrow> trade_row" where
  "render_trade t =
     \<lparr>row_entry_time = entry_time t,
      row_exit_time = exit_time t,
      row_direction = (if direction t = ''long'' then ''Long'' else ''Short''),
      row_entry_price = Fixed (Fin (trade_entry_price t)) 2,
      row_exit_price = Fixed (Fin (exit_price t)) 2,
      row_position_size = Fixed (Fin (trade_position_size t)) 6,
      row_pnl_class = (if pnl_pct t \<ge> 0 then ''text-success'' else ''text-danger''),
      row_pnl_text = FixedPct (Fin (pnl_pct t * 100)) 2,
      row_exit_reason = exit_reason t\<rparr>"

text \<open>
  \<open>updateTradeHistory(trades)\<close>. With an absent or empty list the placeholder row is
  written and the function returns. Otherwise the rows are written, then the dashboard's
  total-trade count and win rate.
\<close>

definition winRate :: "trade list \<Rightarrow> jsnum" where
  "winRate ts =
     (let winningTrades = filter (\<lambda>t. pnl_pct t > 0) ts
      in js_times (js_div (of_nat (length winningTrades)) (of_nat (length ts))) 100)"

definition updateTradeHistory :: "trade list option \<Rightarrow> page \<Rightarrow> page" where
  "updateTradeHistory trs st =
     (if trs = None \<or> length (the trs) = 0 then st\<lparr>trade_history_el := NoHistoryRow\<rparr>
      else
        st\<lparr>trade_history_el := Rows (map render_trade (the trs)),
           total_trades_count_el := Count (length (the trs)),
           win_rate_el := FixedPct (winRate (the trs)) 2\<rparr>)"

section \<open>The performance pipeline\<close>

text \<open>The two guidance texts of the error panel.\<close>

definition warm_up_info :: string where
  "warm_up_info = ''This may happen if you've just added this trading pair. Please wait a few minutes for data to be collected, then try again.''"

definition api_key_info :: string where
  "api_key_info = ''There seems to be an issue with the Binance API connection. Please check your API keys in the configuration and ensure they have the correct permissions.''"

text \<open>
  The third substring the handler looks for begins and ends with an apostrophe:
  \<^verbatim>\<open>'NoneType' object has no attribute 'get_historical_klines'\<close>.
\<close>

definition none_type_text :: string where
  "none_type_text =
     CHR 0x27 # ''NoneType' object has no attribute 'get_historical_klines'' @ [CHR 0x27]"

text \<open>
  The choice of the additional information for an application error, as the
  response handler makes it: the warm-up text, replaced by the API-key text when the
  error text includes one of three fixed substrings.
\<close>

definition additionalInfo :: "string \<Rightarrow> string" where
  "additionalInfo err =
     (if str_includes err ''Binance client is not initialized''
         \<or> str_includes err ''API keys''
         \<or> str_includes err none_type_text
      then api_key_info
      else warm_up_info)"

text \<open>
  \<open>loadPerformanceData(symbol)\<close> up to the request: the loading indicator is shown and
  the previous statistics, position and trade table are cleared.
\<close>

definition loadPerformanceData :: "string \<Rightarrow> page \<Rightarrow> page" where
  "loadPerformanceData symb st =
     (showLoading ''performance-stats'' st)
       \<lparr>symbol_total_trades_el := Txt ''0'',
        symbol_win_rate_el := Txt ''0%'',
        symbol_avg_profit_el := Txt ''0%'',
        symbol_max_drawdown_el := Txt ''0%'',
        current_position_el := LoadingBadge,
        trade_history_el := LoadingRow\<rparr>"

text \<open>
  The handler of the parsed body. It returns \<open>Inr\<close> with the page it leaves, or \<open>Inl\<close>
  with the page at the moment it throws. With a truthy \<open>error\<close> text it raises the alert,
  writes the error panel and clears both charts. A body whose \<open>error\<close> text is empty
  passes the guard and has no \<open>stats\<close>, so reading them throws. A payload is rendered
  in the order statistics, position, price chart, oscillator chart, trade history.
\<close>

definition loadPerformanceData_then :: "string \<Rightarrow> performance_body \<Rightarrow> page \<Rightarrow> page + page" where
  "loadPerformanceData_then symb body st =
     (let st1 = hideLoading ''performance-stats'' st in
      case body of
        ErrorBody err \<Rightarrow>
          (if err \<noteq> [] then
             (let st2 = showAlert (''Failed to load performance data: '' @ err) ''danger'' st1;
                  errorMessage = err
              in Inr (st2\<lparr>current_position_el := ErrorPanel errorMessage (additionalInfo err) symb,
                         priceChart := None,
                         tdiChart := None\<rparr>))
           else Inl st1)
      | Payload data \<Rightarrow>
          Inr (updateTradeHistory (trades data)
                (updateTDIChart (tdi_data data)
                  (updatePriceChart (price_data data)
                    (updateCurrentPosition (current_position data)
                      (updatePerformanceStats (stats data) st1))))))"

text \<open>The \<open>catch\<close> handler.\<close>

definition loadPerformanceData_catch :: "string \<Rightarrow> page \<Rightarrow> page" where
  "loadPerformanceData_catch symb st =
     (showAlert ''Failed to load performance data. Please try again.'' ''danger''
        (hideLoading ''performance-stats'' st))
       \<lparr>current_position_el :=
          ErrorPanel ''An unexpected error occurred while loading performance data.''
            warm_up_info symb\<rparr>"

text \<open>
  The continuation of the request once it settles: a transport failure, a status that
  is not \<open>ok\<close> and an unparseable body all reach the \<open>catch\<close> handler, and so does an
  exception of the body handler.
\<close>

definition loadPerformanceData_settle :: "string \<Rightarrow> performance_body fetched \<Rightarrow> page \<Rightarrow> page" where
  "loadPerformanceData_settle symb r st =
     (case r of
        NetworkFailure \<Rightarrow> loadPerformanceData_catch symb st
      | Response status body \<Rightarrow>
          (if \<not> ok status then loadPerformanceData_catch symb st
           else case body of
                  None \<Rightarrow> loadPerformanceData_catch symb st
                | Some data \<Rightarrow>
                    (case loadPerformanceData_then symb data st of
                       Inl st' \<Rightarrow> loadPerformanceData_catch symb st'
                     | Inr st' \<Rightarrow> st')))"

text \<open>
  The \<open>change\<close> listener of the performance-symbol chooser and the click listener of
  the refresh button.
\<close>

definition performance_symbol_change :: "string \<Rightarrow> page \<Rightarrow> page" where
  "performance_symbol_change v st =
     (let st1 = st\<lparr>currentSymbol := v\<rparr>
      in if currentSymbol st1 \<noteq> [] then loadPerformanceData (currentSymbol st1) st1 else st1)"

definition refresh_performance_click :: "page \<Rightarrow> page" where
  "refresh_performance_click st =
     (if currentSymbol st \<noteq> [] then loadPerformanceData (currentSymbol st) st else st)"

section \<open>Strategy trigger\<close>

text \<open>
  \<open>runStrategy(symbol)\<close>: the part before the request, and the continuation. The
  response status is not consulted; a parsed body decides by its \<open>success\<close> field.
\<close>

definition runStrategy :: "string \<Rightarrow> page \<Rightarrow> page" where
  "runStrategy symb st = showLoading ''run-strategy'' st"

definition runStrategy_catch :: "page \<Rightarrow> page" where
  "runStrategy_catch st =
     showAlert ''Failed to run strategy. Please try again.'' ''danger''
       (hideLoading ''run-strategy'' st)"

definition runStrategy_settle :: "string \<Rightarrow> outcome fetched \<Rightarrow> page \<Rightarrow> page" where
  "runStrategy_settle symb r st =
     (case r of
        NetworkFailure \<Rightarrow> runStrategy_catch st
      | Response status body \<Rightarrow>
          (case body of
             None \<Rightarrow> runStrategy_catch st
           | Some data \<Rightarrow>
               (let st1 = hideLoading ''run-strategy'' st in
                if success data then
                  loadPerformanceData symb
                    (showAlert (''Strategy executed successfully! Action: '' @ interpolate (action data))
                       ''success'' st1)
                else showAlert (''Failed to run strategy: '' @ interpolate (error data)) ''danger'' st1)))"

section \<open>Loading and saving the symbol lists over the network\<close>

text \<open>
  The continuations of the three symbol requests. None of them consults the response
  status: whenever the body parses, the body handler runs.
\<close>

definition loadTradingSymbols_settle :: "string list fetched \<Rightarrow> page \<Rightarrow> page" where
  "loadTradingSymbols_settle r st =
     (case r of
        NetworkFailure \<Rightarrow> showAlert ''Failed to load trading symbols. Please try again.'' ''danger'' st
      | Response status body \<Rightarrow>
          (case body of
             None \<Rightarrow> showAlert ''Failed to load trading symbols. Please try again.'' ''danger'' st
           | Some data \<Rightarrow> loadTradingSymbols_then data st))"

definition loadAvailableSymbols_catch :: "page \<Rightarrow> page" where
  "loadAvailableSymbols_catch st =
     showAlert ''Failed to load available symbols. Please try again.'' ''danger''
       (hideLoading ''available-symbols'' st)"

definition loadAvailableSymbols_settle :: "string list fetched \<Rightarrow> page \<Rightarrow> page" where
  "loadAvailableSymbols_settle r st =
     (case r of
        NetworkFailure \<Rightarrow> loadAvailableSymbols_catch st
      | Response status body \<Rightarrow>
          (case body of
             None \<Rightarrow> loadAvailableSymbols_catch st
           | Some data \<Rightarrow> loadAvailableSymbols_then data st))"

definition saveSelectedSymbols :: "page \<Rightarrow> page" where
  "saveSelectedSymbols st = showLoading ''selected-symbols'' st"

definition saveSelectedSymbols_catch :: "page \<Rightarrow> page" where
  "saveSelectedSymbols_catch st =
     showAlert ''Failed to save trading symbols. Please try again.'' ''danger''
       (hideLoading ''selected-symbols'' st)"

definition saveSelectedSymbols_settle :: "outcome fetched \<Rightarrow> page \<Rightarrow> page" where
  "saveSelectedSymbols_settle r st =
     (case r of
        NetworkFailure \<Rightarrow> saveSelectedSymbols_catch st
      | Response status body \<Rightarrow>
          (case body of
             None \<Rightarrow> saveSelectedSymbols_catch st
           | Some data \<Rightarrow>
               (let st1 = hideLoading ''selected-symbols'' st in
                if success data then
                  (let st2 = showAlert ''Trading symbols saved successfully!'' ''success'' st1
                   in updateDashboardStats (st2\<lparr>performance_symbol_el := selectedSymbols st2\<rparr>))
                else showAlert (''Failed to save trading symbols: '' @ interpolate (error data))
                       ''danger'' st1)))"

section \<open>Configuration\<close>

definition lower_char :: "char \<Rightarrow> char" where
  "lower_char c =
     (case map_of (zip ''ABCDEFGHIJKLMNOPQRSTUVWXYZ'' ''abcdefghijklmnopqrstuvwxyz'') c of
        Some l \<Rightarrow> l
      | None \<Rightarrow> c)"

text \<open>
  \<open>toLowerCase\<close> is only ever compared with the text \<open>true\<close>. No character outside
  ASCII lower-cases to one of the letters t, r, u and e, so lower-casing the ASCII
  letters and leaving every other byte alone decides that comparison as the runtime
  does.
\<close>

definition toLowerCase :: "string \<Rightarrow> string" where
  "toLowerCase s = map lower_char s"

text \<open>
  \<open>form.elements[key]\<close> finds the control of that name (the names of this form are
  unique); the value is written to it: a checkbox is checked exactly when the value is
  \<open>true\<close> in any letter case, every other control is assigned the raw text. A text
  or password input keeps the assigned text as it is; what a number input or a select
  makes of a text it cannot hold is not modelled.
\<close>

fun set_element :: "string \<Rightarrow> string \<Rightarrow> control list \<Rightarrow> control list" where
  "set_element key v [] = []"
| "set_element key v (c # cs) =
     (if ctl_name c = key then
        (if ctl_type c = Checkbox then c\<lparr>ctl_checked := (toLowerCase v = ''true'')\<rparr>
         else c\<lparr>ctl_value := v\<rparr>) # cs
      else c # set_element key v cs)"

definition loadConfig :: "page \<Rightarrow> page" where
  "loadConfig st = showLoading ''config-form'' st"

definition loadConfig_then :: "(string \<times> string) list \<Rightarrow> page \<Rightarrow> page" where
  "loadConfig_then data st =
     hideLoading ''config-form''
       (st\<lparr>config_form_el := foldl (\<lambda>form (key, v). set_element key v form) (config_form_el st) data\<rparr>)"

definition loadConfig_catch :: "page \<Rightarrow> page" where
  "loadConfig_catch st =
     showAlert ''Failed to load configuration. Please try again.'' ''danger''
       (hideLoading ''config-form'' st)"

definition loadConfig_settle :: "(string \<times> string) list fetched \<Rightarrow> page \<Rightarrow> page" where
  "loadConfig_settle r st =
     (case r of
        NetworkFailure \<Rightarrow> loadConfig_catch st
      | Response status body \<Rightarrow>
          (case body of
             None \<Rightarrow> loadConfig_catch st
           | Some data \<Rightarrow> loadConfig_then data st))"

text \<open>
  Form data is an ordered list of entries. \<open>new FormData(form)\<close> takes one entry from
  every enabled, named control in document order, a checkbox only when it is checked.
  \<open>set(name, value)\<close> replaces the first entry of that name and drops the others, or
  appends an entry when there is none; \<open>getAll(name)\<close> lists the values of that name.
\<close>

type_synonym form_data = "(string \<times> string) list"

definition FormData :: "control list \<Rightarrow> form_data" where
  "FormData form =
     map (\<lambda>c. (ctl_name c, ctl_value c))
       (filter (\<lambda>c. (if ctl_disabled c \<or> ctl_name c = [] then False
                      else if ctl_type c = Checkbox then ctl_checked c
                      else True)) form)"

fun replace_entry :: "string \<Rightarrow> string \<Rightarrow> form_data \<Rightarrow> form_data" where
  "replace_entry k v [] = []"
| "replace_entry k v (e # es) =
     (if fst e = k then (k, v) # filter (\<lambda>e'. fst e' \<noteq> k) es
      else e # replace_entry k v es)"

definition formData_set :: "form_data \<Rightarrow> string \<Rightarrow> string \<Rightarrow> form_data" where
  "formData_set fd k v = (if k \<in> set (map fst fd) then replace_entry k v fd else fd @ [(k, v)])"

definition formData_getAll :: "form_data \<Rightarrow> string \<Rightarrow> string list" where
  "formData_getAll fd k = map snd (filter (\<lambda>e. fst e = k) fd)"

text \<open>
  \<open>saveConfig()\<close>: the form data is built from the form, then every checkbox of the form
  that is not checked has its name set to \<open>False\<close>. The result is the body of the request.
\<close>

definition force_unchecked :: "form_data \<Rightarrow> control \<Rightarrow> form_data" where
  "force_unchecked formData checkbox =
     (if \<not> ctl_checked checkbox then formData_set formData (ctl_name checkbox) ''False''
      else formData)"

definition saveConfig_body :: "control list \<Rightarrow> form_data" where
  "saveConfig_body form =
     (let formData = FormData form;
          checkboxes = filter (\<lambda>c. ctl_type c = Checkbox) form
      in foldl force_unchecked formData checkboxes)"

definition saveConfig :: "page \<Rightarrow> page \<times> form_data" where
  "saveConfig st = (showLoading ''config-form'' st, saveConfig_body (config_form_el st))"

definition saveConfig_catch :: "page \<Rightarrow> page" where
  "saveConfig_catch st =
     showAlert ''Failed to save configuration. Please try again.'' ''danger''
       (hideLoading ''config-form'' st)"

definition saveConfig_settle :: "outcome fetched \<Rightarrow> page \<Rightarrow> page" where
  "saveConfig_settle r st =
     (case r of
        NetworkFailure \<Rightarrow> saveConfig_catch st
      | Response status body \<Rightarrow>
          (case body of
             None \<Rightarrow> saveConfig_catch st
           | Some data \<Rightarrow>
               (let st1 = hideLoading ''config-form'' st in
                if success data then
                  updateDashboardStats (showAlert ''Configuration saved successfully!'' ''success'' st1)
                else showAlert (''Failed to save configuration: '' @ interpolate (error data))
                       ''danger'' st1)))"

section \<open>The state the symbol lists keep\<close>

text \<open>
  The in-memory universe has no duplicates, the items shown in the available list have
  no duplicates, and no shown item is a selected symbol.
\<close>

definition lists_ok :: "page \<Rightarrow> bool" where
  "lists_ok st \<longleftrightarrow>
     distinct (availableSymbols st) \<and> distinct (items (available_symbols_el st)) \<and>
     set (items (available_symbols_el st)) \<inter> set (selectedSymbols st) = {}"

section \<open>Overlapping performance requests\<close>

text \<open>
  Nothing is cancelled and no response is matched against \<open>currentSymbol\<close>, so the order
  in which responses settle is the order in which their handlers run. The scenario:
  the user chooses symbol \<open>a\<close>, then symbol \<open>b\<close> while the request for \<open>a\<close> is in
  flight; the response for \<open>b\<close> settles first, then the response for \<open>a\<close>.
\<close>

definition overlapping_fetches ::
  "string \<Rightarrow> string \<Rightarrow> performance_body fetched \<Rightarrow> performance_body fetched \<Rightarrow> page \<Rightarrow> page" where
  "overlapping_fetches a b rb ra st =
     loadPerformanceData_settle a ra
       (loadPerformanceData_settle b rb
          (performance_symbol_change b (performance_symbol_change a st)))"

text \<open>
  The performance section of the page: the four statistics, the position region, the
  two chart handles and the trade table.
\<close>

definition performance_section ::
  "page \<Rightarrow> (cell \<times> cell \<times> cell \<times> cell) \<times> panel \<times> chart option \<times> chart option \<times> history" where
  "performance_section st =
     ((symbol_total_trades_el st, symbol_win_rate_el st, symbol_avg_profit_el st,
       symbol_max_drawdown_el st),
      current_position_el st, priceChart st, tdiChart st, trade_history_el st)"

section \<open>Example data\<close>

text \<open>
  Two rows of the Unicode case table, on UTF-8 bytes: the sharp s (C3 9F) becomes SS and
  the e with acute accent (C3 A9) its capital (C3 89). The examples consult the table
  for nothing else.
\<close>

definition sample_ucase :: "string \<Rightarrow> string" where
  "sample_ucase r =
     (if r = [CHR 0xC3, CHR 0x9F] then ''SS''
      else if r = [CHR 0xC3, CHR 0xA9] then [CHR 0xC3, CHR 0x89]
      else r)"

text \<open>
  A closed trade with a given profit fraction, and a payload for a symbol with no open
  position, empty series, the given trades and a backend-reported win rate of one half.
\<close>

definition example_trade :: "rat \<Rightarrow> trade" where
  "example_trade pnl =
     \<lparr>entry_time = EpochMs 0, exit_time = EpochMs 60000, direction = ''long'',
      trade_entry_price = 100, exit_price = 101, trade_position_size = 1,
      pnl_pct = pnl, exit_reason = ''take_profit''\<rparr>"

definition example_payload :: "string \<Rightarrow> trade list \<Rightarrow> performance" where
  "example_payload symb ts =
     \<lparr>stats = \<lparr>total_trades = length ts, win_rate = 1 / 2, avg_profit = 0, max_drawdown = 0\<rparr>,
      current_position =
        \<lparr>symbol = symb, position = None, entry_price = None, position_size = None,
         stop_loss = None, take_profit_levels = None\<rparr>,
      price_data = [], tdi_data = [], trades = Some ts\<rparr>"

definition example_position :: "string \<Rightarrow> rat option \<Rightarrow> rat option \<Rightarrow> rat list option \<Rightarrow> position_data" where
  "example_position dir entry stop tps =
     \<lparr>symbol = ''BTCUSDT'', position = Some dir, entry_price = entry, position_size = Some 1,
      stop_loss = stop, take_profit_levels = tps\<rparr>"

definition example_checkbox :: "string \<Rightarrow> bool \<Rightarrow> control" where
  "example_checkbox name checked =
     \<lparr>ctl_name = name, ctl_type = Checkbox, ctl_value = ''True'', ctl_checked = checked,
      ctl_disabled = False\<rparr>"

definition example_input :: "string \<Rightarrow> string \<Rightarrow> control" where
  "example_input name v =
     \<lparr>ctl_name = name, ctl_type = Other, ctl_value = v, ctl_checked = False,
      ctl_disabled = False\<rparr>"

section \<open>Substring search\<close>

lemma starts_with_iff: "starts_with s q \<longleftrightarrow> (\<exists>t. s = q @ t)"
  by (induction s q rule: starts_with.induct) auto

lemma str_includes_iff: "str_includes s q \<longleftrightarrow> (\<exists>p t. s = p @ q @ t)"
proof (induction s)
  case Nil
  show ?case by (simp add: starts_with_iff)
next
  case (Cons c cs)
  show ?case
  proof
    assume "str_includes (c # cs) q"
    then consider "starts_with (c # cs) q" | "str_includes cs q" by auto
    then show "\<exists>p t. c # cs = p @ q @ t"
    proof cases
      case 1
      then obtain t where "c # cs = q @ t" by (auto simp: starts_with_iff)
      then have "c # cs = [] @ q @ t" by simp
      then show ?thesis by blast
    next
      case 2
      then obtain p t where "cs = p @ q @ t" using Cons.IH by auto
      then have "c # cs = (c # p) @ q @ t" by simp
      then show ?thesis by blast
    qed
  next
    assume "\<exists>p t. c # cs = p @ q @ t"
    then obtain p t where pt: "c # cs = p @ q @ t" by blast
    show "str_includes (c # cs) q"
    proof (cases p)
      case Nil
      with pt have "starts_with (c # cs) q" by (auto simp: starts_with_iff)
      then show ?thesis by simp
    next
      case (Cons a p')
      with pt have "cs = p' @ q @ t" by simp
      then have "str_includes cs q" using Cons.IH by blast
      then show ?thesis by simp
    qed
  qed
qed

section \<open>Upper-casing\<close>

text \<open>
  The letter table by character codes: the codes 97 to 122 move down by 32, every other
  character stays; and ASCII means the top bit is clear. Both are checked on all 256
  characters.
\<close>

lemma upper_char_code:
  "\<forall>c. upper_char c =
     (if 97 \<le> (of_char c :: nat) \<and> (of_char c :: nat) \<le> 122
      then char_of (of_char c - 32 :: nat) else c)"
  by code_simp

lemma is_ascii_top_bit: "\<forall>c. is_ascii c = (\<not> digit7 c)"
  by code_simp

lemma upper_from_ascii_prefix:
  assumes "\<forall>c\<in>set a. is_ascii c"
  shows "upper_from ucase [] (a @ rest) = map upper_char a @ upper_from ucase [] rest"
  using assms by (induction a) (simp_all add: flush_def)

lemma upper_from_run:
  assumes "\<forall>c\<in>set r. \<not> is_ascii c"
  shows "upper_from ucase run (r @ b) = upper_from ucase (run @ r) b"
  using assms by (induction r arbitrary: run) simp_all

lemma upper_from_boundary:
  assumes "b = [] \<or> is_ascii (hd b)"
  shows "upper_from ucase run b = flush ucase run @ upper_from ucase [] b"
  using assms by (cases b) (simp_all add: flush_def)

lemma toUpperCase_ascii:
  assumes "\<forall>c\<in>set q. is_ascii c"
  shows "toUpperCase ucase q = map upper_char q"
  using upper_from_ascii_prefix[OF assms, of ucase "[]"] by (simp add: toUpperCase_def flush_def)

lemma toUpperCase_split:
  assumes "\<forall>c\<in>set a. is_ascii c" "r \<noteq> []" "\<forall>c\<in>set r. \<not> is_ascii c"
    "b = [] \<or> is_ascii (hd b)"
  shows "toUpperCase ucase (a @ r @ b) = map upper_char a @ ucase r @ toUpperCase ucase b"
proof -
  have "upper_from ucase [] (a @ r @ b) = map upper_char a @ upper_from ucase [] (r @ b)"
    by (rule upper_from_ascii_prefix[OF assms(1)])
  also have "upper_from ucase [] (r @ b) = upper_from ucase r b"
    using upper_from_run[OF assms(3), of ucase "[]" b] by simp
  also have "upper_from ucase r b = flush ucase r @ upper_from ucase [] b"
    by (rule upper_from_boundary[OF assms(4)])
  also have "flush ucase r = ucase r"
    using assms(2) by (simp add: flush_def)
  finally show ?thesis by (simp add: toUpperCase_def)
qed

section \<open>Facts about the symbol lists\<close>

lemma items_updateAvailable:
  "items (available_symbols_el (updateAvailableSymbolsList xs st)) = xs"
  by (simp add: updateAvailableSymbolsList_def)

lemma updateAvailable_globals:
  "availableSymbols (updateAvailableSymbolsList xs st) = availableSymbols st"
  "selectedSymbols (updateAvailableSymbolsList xs st) = selectedSymbols st"
  "symbol_search_el (updateAvailableSymbolsList xs st) = symbol_search_el st"
  "selected_symbols_el (updateAvailableSymbolsList xs st) = selected_symbols_el st"
  by (simp_all add: updateAvailableSymbolsList_def)

lemma updateSelected_globals:
  "availableSymbols (updateSelectedSymbolsList st) = availableSymbols st"
  "selectedSymbols (updateSelectedSymbolsList st) = selectedSymbols st"
  "symbol_search_el (updateSelectedSymbolsList st) = symbol_search_el st"
  "available_symbols_el (updateSelectedSymbolsList st) = available_symbols_el st"
  by (simp_all add: updateSelectedSymbolsList_def)

lemma filterSymbols_fields:
  "availableSymbols (filterSymbols ucase q st) = availableSymbols st"
  "selectedSymbols (filterSymbols ucase q st) = selectedSymbols st"
  "items (available_symbols_el (filterSymbols ucase q st)) =
     filter (\<lambda>symbol. \<not> array_includes (selectedSymbols st) symbol \<and>
                      str_includes symbol (toUpperCase ucase q))
       (availableSymbols st)"
  by (simp_all add: filterSymbols_def Let_def updateAvailable_globals items_updateAvailable)

lemma filterSymbols_only_list:
  "filterSymbols ucase q st =
     st\<lparr>available_symbols_el := available_symbols_el (filterSymbols ucase q st)\<rparr>"
  by (simp add: filterSymbols_def Let_def updateAvailableSymbolsList_def)

lemma load_sequence_fields:
  "availableSymbols (load_sequence selected universe st) = universe"
  "selectedSymbols (load_sequence selected universe st) = selected"
  "items (available_symbols_el (load_sequence selected universe st)) =
     filter (\<lambda>symbol. symbol \<notin> set selected) universe"
  by (simp_all add: load_sequence_def loadAvailableSymbols_then_def loadTradingSymbols_then_def
      loadAvailableSymbols_def showLoading_def hideLoading_def Let_def updateAvailable_globals
      updateSelected_globals items_updateAvailable array_includes_def)

lemma remove_child_distinct:
  assumes "distinct xs" "i < length xs"
  shows "set (remove_child i xs) = set xs - {xs ! i}" "distinct (remove_child i xs)"
proof -
  have xs: "xs = take i xs @ (xs ! i) # drop (Suc i) xs"
    using assms(2) by (simp add: id_take_nth_drop)
  have d: "distinct (take i xs @ (xs ! i) # drop (Suc i) xs)"
    using assms(1) xs by simp
  have "set xs = set (take i xs) \<union> {xs ! i} \<union> set (drop (Suc i) xs)"
    by (subst xs) auto
  moreover have "xs ! i \<notin> set (take i xs)" "xs ! i \<notin> set (drop (Suc i) xs)"
    using d by auto
  ultimately show "set (remove_child i xs) = set xs - {xs ! i}"
    by (auto simp: remove_child_def)
  show "distinct (remove_child i xs)"
    using d by (auto simp: remove_child_def)
qed

lemma filterSymbols_ok:
  assumes "distinct (availableSymbols st)"
  shows "lists_ok (filterSymbols ucase q st)"
  using assms by (auto simp: lists_ok_def filterSymbols_fields array_includes_def)

lemma search_input_ok: "lists_ok st \<Longrightarrow> lists_ok (search_input ucase v st)"
  unfolding search_input_def by (rule filterSymbols_ok) (simp add: lists_ok_def)

lemma available_item_click_ok:
  assumes "lists_ok st"
  shows "lists_ok (available_item_click i st)"
proof (cases "i < length (items (available_symbols_el st)) \<and>
              \<not> array_includes (selectedSymbols st) (items (available_symbols_el st) ! i)")
  case False
  then show ?thesis using assms by (auto simp: available_item_click_def Let_def)
next
  case True
  let ?xs = "items (available_symbols_el st)"
  have d: "distinct ?xs" and i: "i < length ?xs" using assms True by (auto simp: lists_ok_def)
  have "set (remove_child i ?xs) \<inter> set (selectedSymbols st @ [?xs ! i]) = {}"
    using assms remove_child_distinct(1)[OF d i] by (auto simp: lists_ok_def)
  with True assms remove_child_distinct(2)[OF d i] show ?thesis
    by (simp add: available_item_click_def Let_def lists_ok_def updateSelected_globals push_def)
qed

lemma remove_button_click_ok:
  assumes "lists_ok st"
  shows "lists_ok (remove_button_click ucase j st)"
proof (cases "j < length (items (selected_symbols_el st))")
  case False
  then show ?thesis using assms by (simp add: remove_button_click_def)
next
  case True
  have d: "distinct (availableSymbols st)" using assms by (simp add: lists_ok_def)
  show ?thesis using True d
    by (auto simp: remove_button_click_def Let_def updateSelected_globals push_def array_includes_def
        intro!: filterSymbols_ok)
qed

lemma apply_op_ok: "lists_ok st \<Longrightarrow> lists_ok (apply_op ucase st x)"
  by (cases x) (simp_all add: available_item_click_ok remove_button_click_ok search_input_ok)

lemma run_ops_ok: "lists_ok st \<Longrightarrow> lists_ok (run_ops ucase st ops)"
  unfolding run_ops_def by (induction ops arbitrary: st) (simp_all add: apply_op_ok)

lemma load_sequence_ok: "distinct universe \<Longrightarrow> lists_ok (load_sequence selected universe st)"
  by (auto simp: lists_ok_def load_sequence_fields)

lemmas symbol_defs =
  run_ops_def load_sequence_def loadAvailableSymbols_then_def loadTradingSymbols_then_def
  loadAvailableSymbols_def showLoading_def hideLoading_def updateAvailableSymbolsList_def
  updateSelectedSymbolsList_def available_item_click_def remove_button_click_def
  search_input_def filterSymbols_def array_includes_def splice_first_def push_def
  remove_child_def toUpperCase_def upper_char_def is_ascii_def flush_def initial_page_def Let_def

section \<open>Claims about the symbol lists\<close>

text \<open>
  C5. For every page state, every query and every case table of the runtime,
  \<open>filterSymbols\<close> re-renders only the available list, and the list it renders holds
  exactly the symbols of \<open>availableSymbols\<close> that are not in \<open>selectedSymbols\<close> and
  that contain the upper-cased query somewhere inside (as a substring, at any position),
  in the order they have in \<open>availableSymbols\<close>. The upper-cased query is determined
  as follows: in an ASCII query the characters with codes 97 to 122 (a to z) move down
  by 32 (A to Z) and all others stay as they are; in a query that consists of an
  ASCII part, a non-empty run of other bytes and a rest that is empty or starts with an
  ASCII character, the ASCII part is treated in that way, the run is replaced by what
  the case table gives for it, and the rest is upper-cased in turn.
\<close>

theorem filterSymbols_exact:
  "filterSymbols ucase query st =
     st\<lparr>available_symbols_el := available_symbols_el (filterSymbols ucase query st)\<rparr> \<and>
   items (available_symbols_el (filterSymbols ucase query st)) =
     filter (\<lambda>symbol. symbol \<notin> set (selectedSymbols st) \<and>
                      (\<exists>p t. symbol = p @ toUpperCase ucase query @ t))
       (availableSymbols st) \<and>
   ((\<forall>c\<in>set query. of_char c < (128::nat)) \<longrightarrow>
      toUpperCase ucase query =
        map (\<lambda>c. if 97 \<le> (of_char c :: nat) \<and> (of_char c :: nat) \<le> 122
                 then char_of (of_char c - 32 :: nat) else c) query) \<and>
   (query = a @ r @ b \<and> (\<forall>c\<in>set a. of_char c < (128::nat)) \<and>
    r \<noteq> [] \<and> (\<forall>c\<in>set r. 128 \<le> (of_char c :: nat)) \<and>
    (b = [] \<or> of_char (hd b) < (128::nat)) \<longrightarrow>
      toUpperCase ucase query =
        map (\<lambda>c. if 97 \<le> (of_char c :: nat) \<and> (of_char c :: nat) \<le> 122
                 then char_of (of_char c - 32 :: nat) else c) a
        @ ucase r @ toUpperCase ucase b)"
proof (intro conjI impI)
  show "filterSymbols ucase query st =
     st\<lparr>available_symbols_el := available_symbols_el (filterSymbols ucase query st)\<rparr>"
    by (rule filterSymbols_only_list)
  show "items (available_symbols_el (filterSymbols ucase query st)) =
     filter (\<lambda>symbol. symbol \<notin> set (selectedSymbols st) \<and>
                      (\<exists>p t. symbol = p @ toUpperCase ucase query @ t))
       (availableSymbols st)"
    by (simp add: filterSymbols_fields array_includes_def str_includes_iff)
next
  assume "\<forall>c\<in>set query. of_char c < (128::nat)"
  then have "\<forall>c\<in>set query. is_ascii c" by (simp add: is_ascii_def)
  then have "toUpperCase ucase query = map upper_char query" by (rule toUpperCase_ascii)
  then show "toUpperCase ucase query =
        map (\<lambda>c. if 97 \<le> (of_char c :: nat) \<and> (of_char c :: nat) \<le> 122
                 then char_of (of_char c - 32 :: nat) else c) query"
    using upper_char_code by simp
next
  assume h: "query = a @ r @ b \<and> (\<forall>c\<in>set a. of_char c < (128::nat)) \<and>
    r \<noteq> [] \<and> (\<forall>c\<in>set r. 128 \<le> (of_char c :: nat)) \<and>
    (b = [] \<or> of_char (hd b) < (128::nat))"
  then have 1: "\<forall>c\<in>set a. is_ascii c" and 2: "r \<noteq> []"
    and 3: "\<forall>c\<in>set r. \<not> is_ascii c" and 4: "b = [] \<or> is_ascii (hd b)"
    by (auto simp: is_ascii_def)
  have "toUpperCase ucase (a @ r @ b) = map upper_char a @ ucase r @ toUpperCase ucase b"
    by (rule toUpperCase_split[OF 1 2 3 4])
  then show "toUpperCase ucase query =
        map (\<lambda>c. if 97 \<le> (of_char c :: nat) \<and> (of_char c :: nat) \<le> 122
                 then char_of (of_char c - 32 :: nat) else c) a
        @ ucase r @ toUpperCase ucase b"
    using h upper_char_code by simp
qed

text \<open>
  Examples of C5. On the universe BTCUSDT, ETHUSDT, BNBUSDT with ETHUSDT selected, the
  lower-case query usd is upper-cased to USD, occurs inside all three symbols and not
  at their start, and lists the two unselected ones in universe order; the query BT
  lists BTCUSDT. On the universe BTCUSDT, SSUSDT, the query made of a sharp s (a run of
  two bytes outside ASCII) and the letter u is upper-cased to SSU and lists SSUSDT.
\<close>

theorem filterSymbols_example:
  "list_all (\<lambda>c. of_char c < (128::nat)) ''usd'' \<and>
   toUpperCase sample_ucase ''usd'' = ''USD'' \<and>
   items (available_symbols_el (filterSymbols sample_ucase ''usd''
      (load_sequence [''ETHUSDT''] [''BTCUSDT'', ''ETHUSDT'', ''BNBUSDT''] initial_page)))
     = [''BTCUSDT'', ''BNBUSDT''] \<and>
   items (available_symbols_el (filterSymbols sample_ucase ''BT''
      (load_sequence [''ETHUSDT''] [''BTCUSDT'', ''ETHUSDT'', ''BNBUSDT''] initial_page)))
     = [''BTCUSDT''] \<and>
   [CHR 0xC3, CHR 0x9F] \<noteq> [] \<and> list_all (\<lambda>c. 128 \<le> (of_char c :: nat)) [CHR 0xC3, CHR 0x9F] \<and>
   of_char (hd ''u'') < (128::nat) \<and>
   toUpperCase sample_ucase ([] @ [CHR 0xC3, CHR 0x9F] @ ''u'') = ''SSU'' \<and>
   items (available_symbols_el (filterSymbols sample_ucase ([] @ [CHR 0xC3, CHR 0x9F] @ ''u'')
      (load_sequence [] [''BTCUSDT'', ''SSUSDT''] initial_page))) = [''SSUSDT'']"
proof -
  let ?st = "load_sequence [''ETHUSDT''] [''BTCUSDT'', ''ETHUSDT'', ''BNBUSDT''] initial_page"
  let ?st2 = "load_sequence [] [''BTCUSDT'', ''SSUSDT''] initial_page"
  let ?up = "\<lambda>c. if 97 \<le> (of_char c :: nat) \<and> (of_char c :: nat) \<le> 122
                     then char_of (of_char c - 32 :: nat) else c"
  have a: "\<forall>c\<in>set ''usd''. of_char c < (128::nat)" by simp
  have a': "\<forall>c\<in>set ''BT''. of_char c < (128::nat)" by simp
  have a'': "\<forall>c\<in>set ''u''. of_char c < (128::nat)" by simp
  have m: "map ?up ''usd'' = ''USD''" by code_simp
  have m': "map ?up ''BT'' = ''BT''" by code_simp
  have m'': "map ?up ''u'' = ''U''" by code_simp
  have u: "toUpperCase sample_ucase ''usd'' = ''USD''"
    using filterSymbols_exact[of sample_ucase "''usd''" ?st] a m by simp
  have u': "toUpperCase sample_ucase ''BT'' = ''BT''"
    using filterSymbols_exact[of sample_ucase "''BT''" ?st] a' m' by simp
  have u'': "toUpperCase sample_ucase ''u'' = ''U''"
    using filterSymbols_exact[of sample_ucase "''u''" ?st] a'' m'' by simp
  have r: "[CHR 0xC3, CHR 0x9F] \<noteq> [] \<and> (\<forall>c\<in>set [CHR 0xC3, CHR 0x9F]. 128 \<le> (of_char c :: nat)) \<and>
           of_char (hd ''u'') < (128::nat)" by simp
  have s: "toUpperCase sample_ucase ([] @ [CHR 0xC3, CHR 0x9F] @ ''u'') = ''SSU''"
    using filterSymbols_exact[of sample_ucase "[] @ [CHR 0xC3, CHR 0x9F] @ ''u''" ?st2
            "[]" "[CHR 0xC3, CHR 0x9F]" "''u''"] r u''
    by (simp add: sample_ucase_def)
  have "items (available_symbols_el (filterSymbols sample_ucase ''usd'' ?st)) =
          filter (\<lambda>symbol. symbol \<notin> set (selectedSymbols ?st) \<and> str_includes symbol ''USD'')
            (availableSymbols ?st)"
    using filterSymbols_exact[of sample_ucase "''usd''" ?st] unfolding u
    by (simp only: str_includes_iff)
  then have 1: "items (available_symbols_el (filterSymbols sample_ucase ''usd'' ?st))
                  = [''BTCUSDT'', ''BNBUSDT'']"
    by (simp add: load_sequence_fields)
  have "items (available_symbols_el (filterSymbols sample_ucase ''BT'' ?st)) =
          filter (\<lambda>symbol. symbol \<notin> set (selectedSymbols ?st) \<and> str_includes symbol ''BT'')
            (availableSymbols ?st)"
    using filterSymbols_exact[of sample_ucase "''BT''" ?st] unfolding u'
    by (simp only: str_includes_iff)
  then have 2: "items (available_symbols_el (filterSymbols sample_ucase ''BT'' ?st)) = [''BTCUSDT'']"
    by (simp add: load_sequence_fields)
  have "items (available_symbols_el (filterSymbols sample_ucase ([] @ [CHR 0xC3, CHR 0x9F] @ ''u'') ?st2)) =
          filter (\<lambda>symbol. symbol \<notin> set (selectedSymbols ?st2) \<and> str_includes symbol ''SSU'')
            (availableSymbols ?st2)"
    using filterSymbols_exact[of sample_ucase "[] @ [CHR 0xC3, CHR 0x9F] @ ''u''" ?st2] unfolding s
    by (simp only: str_includes_iff)
  then have 3: "items (available_symbols_el
       (filterSymbols sample_ucase ([] @ [CHR 0xC3, CHR 0x9F] @ ''u'') ?st2)) = [''SSUSDT'']"
    by (simp add: load_sequence_fields)
  have la: "list_all (\<lambda>c. of_char c < (128::nat)) ''usd''" by simp
  have lr: "list_all (\<lambda>c. 128 \<le> (of_char c :: nat)) [CHR 0xC3, CHR 0x9F]" by simp
  show ?thesis using la lr u 1 2 r s 3 by blast
qed

text \<open>A lower-case query that matches in the middle of a single symbol.\<close>

lemma filterSymbols_inner_match:
  "items (available_symbols_el (filterSymbols sample_ucase ''tcu''
      (load_sequence [] [''BTCUSDT'', ''ETHUSDT'', ''BNBUSDT''] initial_page))) = [''BTCUSDT'']"
  by (simp add: symbol_defs)

text \<open>
  C1, as stated, fails for the collection the script keeps in \<open>availableSymbols\<close>: after
  the load sequence with nothing selected and the universe BTCUSDT, selecting the
  only item leaves BTCUSDT both in \<open>availableSymbols\<close> and in \<open>selectedSymbols\<close>.
\<close>

theorem available_selected_overlap:
  "\<not> (set (availableSymbols (run_ops sample_ucase (load_sequence [] [''BTCUSDT''] initial_page) [Select 0]))
        \<inter> set (selectedSymbols (run_ops sample_ucase (load_sequence [] [''BTCUSDT''] initial_page) [Select 0])) = {})"
  by (simp add: symbol_defs)

text \<open>
  C1, amended. When the fetched universe has no duplicates, then after the load
  sequence and any run of select, deselect and filter operations the items shown in the
  available list and the selected symbols are disjoint: no symbol is shown as available
  while it is selected.
\<close>

theorem rendered_available_disjoint_selected:
  assumes "distinct universe"
  shows "set (items (available_symbols_el (run_ops ucase (load_sequence selected universe st) ops)))
           \<inter> set (selectedSymbols (run_ops ucase (load_sequence selected universe st) ops)) = {}"
  using run_ops_ok[OF load_sequence_ok[OF assms]] by (simp add: lists_ok_def)

theorem rendered_available_disjoint_selected_witness:
  "distinct [''BTCUSDT'', ''ETHUSDT'', ''BNBUSDT''] \<and>
   set (items (available_symbols_el
          (run_ops sample_ucase (load_sequence [''ETHUSDT''] [''BTCUSDT'', ''ETHUSDT'', ''BNBUSDT''] initial_page)
             [Filter ''b'', Select 1, Deselect 0, Filter ''usd'', Select 0])))
     \<inter> set (selectedSymbols
          (run_ops sample_ucase (load_sequence [''ETHUSDT''] [''BTCUSDT'', ''ETHUSDT'', ''BNBUSDT''] initial_page)
             [Filter ''b'', Select 1, Deselect 0, Filter ''usd'', Select 0])) = {}"
  using rendered_available_disjoint_selected
          [of "[''BTCUSDT'', ''ETHUSDT'', ''BNBUSDT'']" sample_ucase "[''ETHUSDT'']" initial_page
              "[Filter ''b'', Select 1, Deselect 0, Filter ''usd'', Select 0]"]
  by simp

text \<open>
  The condition on the universe is needed: when the fetched universe lists a symbol
  twice, a select removes only the clicked item and the second item stays in the list.
\<close>

lemma duplicate_universe_overlap:
  "available_symbols_el
     (run_ops sample_ucase (load_sequence [] [''BTCUSDT'', ''BTCUSDT''] initial_page) [Select 0]) = Items [''BTCUSDT''] \<and>
   selectedSymbols
     (run_ops sample_ucase (load_sequence [] [''BTCUSDT'', ''BTCUSDT''] initial_page) [Select 0]) = [''BTCUSDT'']"
  by (simp add: symbol_defs)

text \<open>The run of five operations used above, evaluated.\<close>

lemma run_ops_example:
  "selectedSymbols
     (run_ops sample_ucase (load_sequence [''ETHUSDT''] [''BTCUSDT'', ''ETHUSDT'', ''BNBUSDT''] initial_page)
        [Filter ''b'', Select 1, Deselect 0, Filter ''usd'', Select 0]) = [''BNBUSDT'', ''BTCUSDT''] \<and>
   available_symbols_el
     (run_ops sample_ucase (load_sequence [''ETHUSDT''] [''BTCUSDT'', ''ETHUSDT'', ''BNBUSDT''] initial_page)
        [Filter ''b'', Select 1, Deselect 0, Filter ''usd'', Select 0]) = Items [''ETHUSDT'']"
  by code_simp

lemma click_universe: "availableSymbols (available_item_click i st) = availableSymbols st"
  by (simp add: available_item_click_def Let_def updateSelected_globals)

lemma selects_universe:
  "availableSymbols (run_ops ucase st (map Select picks)) = availableSymbols st"
  unfolding run_ops_def by (induction picks arbitrary: st) (simp_all add: click_universe)

text \<open>
  No operation removes a symbol from \<open>availableSymbols\<close>: a deselect may append the
  symbol it puts back, nothing else is written.
\<close>

lemma apply_op_universe:
  "\<exists>extra. availableSymbols (apply_op ucase st x) = availableSymbols st @ extra"
proof (cases x)
  case (Select i)
  then show ?thesis by (simp add: click_universe)
next
  case (Deselect j)
  then show ?thesis
    by (simp add: remove_button_click_def Let_def filterSymbols_fields updateSelected_globals push_def)
next
  case (Filter q)
  then show ?thesis by (simp add: search_input_def filterSymbols_fields)
qed

lemma universe_kept:
  "\<exists>extra. availableSymbols (run_ops ucase st ops) = availableSymbols st @ extra"
  unfolding run_ops_def
proof (induction ops arbitrary: st)
  case Nil
  show ?case by simp
next
  case (Cons x xs)
  obtain e1 where e1: "availableSymbols (apply_op ucase st x) = availableSymbols st @ e1"
    using apply_op_universe by blast
  obtain e2 where "availableSymbols (foldl (apply_op ucase) (apply_op ucase st x) xs) =
      availableSymbols (apply_op ucase st x) @ e2"
    using Cons.IH by blast
  with e1 have "availableSymbols (foldl (apply_op ucase) st (x # xs)) = availableSymbols st @ (e1 @ e2)"
    by simp
  then show ?case by blast
qed

text \<open>
  C9. A click on the \<open>i\<close>-th item of the available list, when that item exists and its
  symbol is not yet selected, appends the symbol to \<open>selectedSymbols\<close>, removes that one
  item from the rendered available list and re-renders the selected list and its
  count from the new \<open>selectedSymbols\<close>; every other part of the page is left as it was,
  and otherwise the click changes nothing. In both cases \<open>availableSymbols\<close> is
  unchanged, so after the load sequence and any run of selects it still is the
  universe that was fetched.
\<close>

theorem select_frame:
  "available_item_click i st =
     (if i < length (items (available_symbols_el st)) \<and>
         items (available_symbols_el st) ! i \<notin> set (selectedSymbols st)
      then st\<lparr>selectedSymbols := selectedSymbols st @ [items (available_symbols_el st) ! i],
              available_symbols_el :=
                Items (take i (items (available_symbols_el st)) @ drop (Suc i) (items (available_symbols_el st))),
              selected_symbols_el := Items (selectedSymbols st @ [items (available_symbols_el st) ! i]),
              active_symbols_count_el := Count (Suc (length (selectedSymbols st)))\<rparr>
      else st) \<and>
   availableSymbols (available_item_click i st) = availableSymbols st \<and>
   availableSymbols (run_ops ucase (load_sequence selected universe st) (map Select picks)) = universe"
  by (simp add: selects_universe load_sequence_fields click_universe)
     (simp add: available_item_click_def Let_def updateSelectedSymbolsList_def push_def
        remove_child_def array_includes_def)

theorem select_frame_witness:
  "available_item_click 1 (load_sequence [''ETHUSDT''] [''BTCUSDT'', ''ETHUSDT'', ''BNBUSDT''] initial_page)
     = (load_sequence [''ETHUSDT''] [''BTCUSDT'', ''ETHUSDT'', ''BNBUSDT''] initial_page)
         \<lparr>selectedSymbols := [''ETHUSDT'', ''BNBUSDT''],
          available_symbols_el := Items [''BTCUSDT''],
          selected_symbols_el := Items [''ETHUSDT'', ''BNBUSDT''],
          active_symbols_count_el := Count 2\<rparr> \<and>
   availableSymbols (available_item_click 1
       (load_sequence [''ETHUSDT''] [''BTCUSDT'', ''ETHUSDT'', ''BNBUSDT''] initial_page))
     = [''BTCUSDT'', ''ETHUSDT'', ''BNBUSDT'']"
  using select_frame[of 1 "load_sequence [''ETHUSDT''] [''BTCUSDT'', ''ETHUSDT'', ''BNBUSDT''] initial_page"
      sample_ucase "[]" "[]" "[]"]
  by (simp add: load_sequence_fields)

section \<open>Claims about the position and trade renderers\<close>

text \<open>
  C4, as stated, fails when a price that is present is zero: a long position with
  entry price 100, stop loss 0 and take profit 110 has all three values present, yet
  the guard of \<open>calculateRiskReward\<close> treats the zero stop loss as missing and the
  result is the not-available marker instead of (110 - 100) / (100 - 0).
\<close>

theorem risk_reward_zero_stop_loss:
  "calculateRiskReward (example_position ''long'' (Some 100) (Some 0) (Some [110])) = Txt ''N/A'' \<and>
   calculateRiskReward (example_position ''long'' (Some 100) (Some 0) (Some [110]))
     \<noteq> Fixed (Fin ((110 - 100) / (100 - 0))) 2"
  by (simp add: calculateRiskReward_def example_position_def)

text \<open>
  C4, amended. For a position whose direction is a non-empty text, whose entry price
  \<open>E\<close> and stop loss \<open>S\<close> are present and not zero, and whose take-profit levels start
  with \<open>T\<close>: the rendered ratio is the quotient (T - E) / (E - S) for the direction
  \<open>long\<close> and (E - T) / (S - E) for every other direction, printed with two decimals.
  When the direction, the entry price or the stop loss is absent, empty or zero, or the
  take-profit levels are absent or empty, the result is the not-available marker.
\<close>

theorem calculateRiskReward_cases:
  "(position p = Some d \<and> d \<noteq> [] \<and> entry_price p = Some E \<and> E \<noteq> 0 \<and>
    stop_loss p = Some S \<and> S \<noteq> 0 \<and> take_profit_levels p = Some (T # ts) \<longrightarrow>
      calculateRiskReward p =
        (if d = ''long'' then Fixed (js_div (T - E) (E - S)) 2
         else Fixed (js_div (E - T) (S - E)) 2)) \<and>
   (position p = None \<or> position p = Some [] \<or> entry_price p = None \<or> entry_price p = Some 0 \<or>
    stop_loss p = None \<or> stop_loss p = Some 0 \<or>
    take_profit_levels p = None \<or> take_profit_levels p = Some [] \<longrightarrow>
      calculateRiskReward p = Txt ''N/A'')"
  by (auto simp: calculateRiskReward_def Let_def)

text \<open>
  The examples of C4: long 100 / 95 / 110 and short 100 / 105 / 90 both give the ratio 2;
  a missing stop loss gives the not-available marker.
\<close>

theorem calculateRiskReward_witness:
  "calculateRiskReward (example_position ''long'' (Some 100) (Some 95) (Some [110])) = Fixed (Fin 2) 2 \<and>
   calculateRiskReward (example_position ''short'' (Some 100) (Some 105) (Some [90])) = Fixed (Fin 2) 2 \<and>
   calculateRiskReward (example_position ''long'' (Some 100) None (Some [110])) = Txt ''N/A''"
  using calculateRiskReward_cases
          [of "example_position ''long'' (Some 100) (Some 95) (Some [110])" "''long''" 100 95 110 "[]"]
        calculateRiskReward_cases
          [of "example_position ''short'' (Some 100) (Some 105) (Some [90])" "''short''" 100 105 90 "[]"]
        calculateRiskReward_cases
          [of "example_position ''long'' (Some 100) None (Some [110])" "''long''" 100 95 110 "[]"]
  by (simp add: js_div_def example_position_def)

text \<open>The quotient is an ordinary ratio unless entry price and stop loss coincide.\<close>

lemma js_div_finite: "b \<noteq> 0 \<Longrightarrow> js_div a b = Fin (a / b)"
  by (simp add: js_div_def)

lemma risk_reward_equal_stop:
  "calculateRiskReward (example_position ''long'' (Some 100) (Some 100) (Some [110])) = Fixed PosInf 2"
  by (simp add: calculateRiskReward_def example_position_def js_div_def)

lemma winRate_eq:
  assumes "ts \<noteq> []"
  shows "winRate ts = Fin (of_nat (length (filter (\<lambda>t. 0 < pnl_pct t) ts)) / of_nat (length ts) * 100)"
  using assms by (simp add: winRate_def js_div_def)

lemma winRate_bounds:
  assumes "ts \<noteq> []"
  shows "\<exists>r. winRate ts = Fin r \<and> 0 \<le> r \<and> r \<le> 100"
proof -
  let ?w = "length (filter (\<lambda>t. 0 < pnl_pct t) ts)"
  have "?w \<le> length ts" by simp
  then have "(of_nat ?w :: rat) \<le> of_nat (length ts)" by (simp only: of_nat_le_iff)
  moreover have "(0::rat) < of_nat (length ts)" using assms by simp
  ultimately have "(of_nat ?w :: rat) / of_nat (length ts) \<le> 1" by (simp add: divide_le_eq)
  then have "(of_nat ?w :: rat) / of_nat (length ts) * 100 \<le> 1 * 100"
    by (rule mult_right_mono) simp
  then have "(of_nat ?w :: rat) / of_nat (length ts) * 100 \<le> 100" by (simp only: mult_1)
  moreover have "0 \<le> (of_nat ?w :: rat) / of_nat (length ts) * 100" by simp
  ultimately show ?thesis using winRate_eq[OF assms] by blast
qed

text \<open>
  C6. For every non-empty trade list, \<open>updateTradeHistory\<close> writes to the dashboard the
  number of trades and, as win rate, the number of trades whose \<open>pnl_pct\<close> is strictly
  positive divided by the number of trades, times 100, printed with two decimals and a
  percent sign. When a payload with these trades is rendered, the dashboard win rate
  is that value whatever the payload's \<open>stats\<close> say, while the symbol's win-rate cell
  shows the backend-reported \<open>stats.win_rate\<close>.
\<close>

theorem trade_history_win_rate:
  "ts \<noteq> [] \<longrightarrow>
     win_rate_el (updateTradeHistory (Some ts) st) =
       FixedPct (Fin (of_nat (length (filter (\<lambda>t. 0 < pnl_pct t) ts)) / of_nat (length ts) * 100)) 2 \<and>
     total_trades_count_el (updateTradeHistory (Some ts) st) = Count (length ts) \<and>
     (\<forall>data symb. trades data = Some ts \<longrightarrow>
        (\<exists>st'. loadPerformanceData_then symb (Payload data) st = Inr st' \<and>
           win_rate_el st' =
             FixedPct (Fin (of_nat (length (filter (\<lambda>t. 0 < pnl_pct t) ts)) / of_nat (length ts) * 100)) 2 \<and>
           symbol_win_rate_el st' = FixedPct (Fin (win_rate (stats data) * 100)) 2))"
  by (simp add: updateTradeHistory_def winRate_eq loadPerformanceData_then_def Let_def
       updateTDIChart_def updatePriceChart_def updateCurrentPosition_def updatePerformanceStats_def
       hideLoading_def)

text \<open>
  The example of C6: profits 0.02, -0.01 and 0.00 give one win in three trades, a win
  rate of 100/3 percent (33.33 at two decimals); the trade with profit zero is no win.
\<close>

theorem trade_history_win_rate_witness:
  "[example_trade (2 / 100), example_trade (- 1 / 100), example_trade 0] \<noteq> [] \<and>
   win_rate_el (updateTradeHistory
       (Some [example_trade (2 / 100), example_trade (- 1 / 100), example_trade 0]) initial_page)
     = FixedPct (Fin (100 / 3)) 2 \<and>
   total_trades_count_el (updateTradeHistory
       (Some [example_trade (2 / 100), example_trade (- 1 / 100), example_trade 0]) initial_page)
     = Count 3"
  using trade_history_win_rate
          [of "[example_trade (2 / 100), example_trade (- 1 / 100), example_trade 0]" initial_page]
  by (simp add: example_trade_def)

text \<open>
  C10. With an absent or empty trade list, \<open>updateTradeHistory\<close> changes nothing but the
  trade table, which shows the no-history row: the dashboard's total-trade count and win
  rate keep what they showed. The win rate is computed only for a non-empty list, so
  its divisor is positive and the quotient is a finite percentage between 0 and 100.
\<close>

theorem empty_history_returns_early:
  "(trs = None \<or> trs = Some [] \<longrightarrow>
      updateTradeHistory trs st = st\<lparr>trade_history_el := NoHistoryRow\<rparr>) \<and>
   (\<forall>ts. trs = Some ts \<and> ts \<noteq> [] \<longrightarrow>
      0 < length ts \<and>
      win_rate_el (updateTradeHistory trs st) = FixedPct (winRate ts) 2 \<and>
      (\<exists>r. winRate ts = Fin r \<and> 0 \<le> r \<and> r \<le> 100))"
  using winRate_bounds by (auto simp: updateTradeHistory_def)

theorem empty_history_returns_early_witness:
  "updateTradeHistory None initial_page = initial_page\<lparr>trade_history_el := NoHistoryRow\<rparr> \<and>
   updateTradeHistory (Some []) initial_page = initial_page\<lparr>trade_history_el := NoHistoryRow\<rparr> \<and>
   win_rate_el (updateTradeHistory (Some []) initial_page) = Txt ''0%'' \<and>
   total_trades_count_el (updateTradeHistory (Some []) initial_page) = Txt ''0'' \<and>
   win_rate_el (updateTradeHistory (Some [example_trade 0]) initial_page) = FixedPct (Fin 0) 2"
  using empty_history_returns_early[of None initial_page]
        empty_history_returns_early[of "Some []" initial_page]
        empty_history_returns_early[of "Some [example_trade 0]" initial_page]
  by (simp add: initial_page_def winRate_def js_div_def example_trade_def)

section \<open>Claims about the performance pipeline\<close>

lemmas perf_defs =
  loadPerformanceData_settle_def loadPerformanceData_then_def loadPerformanceData_catch_def
  loadPerformanceData_def performance_symbol_change_def updateTradeHistory_def updateTDIChart_def
  updatePriceChart_def updateCurrentPosition_def updatePerformanceStats_def
  showLoading_def hideLoading_def showAlert_def Let_def

text \<open>What the position region shows once a request has settled, case by case.\<close>

lemma settle_panel:
  "current_position_el (loadPerformanceData_settle symb r st) =
     (case r of
        NetworkFailure \<Rightarrow>
          ErrorPanel ''An unexpected error occurred while loading performance data.'' warm_up_info symb
      | Response status body \<Rightarrow>
          (if \<not> ok status then
             ErrorPanel ''An unexpected error occurred while loading performance data.'' warm_up_info symb
           else case body of
             None \<Rightarrow>
               ErrorPanel ''An unexpected error occurred while loading performance data.'' warm_up_info symb
           | Some (ErrorBody err) \<Rightarrow>
               (if err \<noteq> [] then ErrorPanel err (additionalInfo err) symb
                else ErrorPanel ''An unexpected error occurred while loading performance data.''
                       warm_up_info symb)
           | Some (Payload data) \<Rightarrow>
               current_position_el (updateCurrentPosition (current_position data) st)))"
  by (simp add: perf_defs split: fetched.splits option.splits performance_body.splits)

lemma position_indep:
  "current_position_el (updateCurrentPosition p st) = current_position_el (updateCurrentPosition p st')"
  by (simp add: updateCurrentPosition_def Let_def)

lemma settle_panel_indep:
  "current_position_el (loadPerformanceData_settle symb r st) =
   current_position_el (loadPerformanceData_settle symb r st')"
  unfolding settle_panel
  by (auto split: fetched.splits option.splits performance_body.splits intro: position_indep)

lemma settle_currentSymbol:
  "currentSymbol (loadPerformanceData_settle symb r st) = currentSymbol st"
  by (simp add: perf_defs split: fetched.splits option.splits performance_body.splits)

lemma change_currentSymbol: "currentSymbol (performance_symbol_change v st) = v"
  by (simp add: perf_defs)

lemma settle_payload:
  assumes "ok status"
  shows "loadPerformanceData_settle symb (Response status (Some (Payload data))) st =
     updateTradeHistory (trades data)
       (updateTDIChart (tdi_data data)
          (updatePriceChart (price_data data)
             (updateCurrentPosition (current_position data)
                (updatePerformanceStats (stats data) (hideLoading ''performance-stats'' st)))))"
  using assms by (simp add: loadPerformanceData_settle_def loadPerformanceData_then_def Let_def)

lemma payload_section_indep:
  assumes "ok status"
  shows "performance_section (loadPerformanceData_settle symb (Response status (Some (Payload data))) st) =
         performance_section (loadPerformanceData_settle symb (Response status (Some (Payload data))) st')"
  unfolding settle_payload[OF assms]
  by (simp add: performance_section_def updateTradeHistory_def updateTDIChart_def
       updatePriceChart_def updateCurrentPosition_def updatePerformanceStats_def hideLoading_def Let_def)

text \<open>
  C2. Let the user choose symbol \<open>a\<close> and then symbol \<open>b\<close> (both non-empty), and let
  the response for \<open>b\<close> settle before the response for \<open>a\<close>. Then \<open>currentSymbol\<close> is
  \<open>b\<close>, but the position region shows exactly what the response for \<open>a\<close> alone would
  have produced, whatever the two responses are: the handler of the late response runs
  unconditionally. When the late response is a payload with a successful status, the
  whole performance section (statistics, position, both charts, trade table) is the
  one of that payload, and the position region is the rendering of its position.
\<close>

theorem last_settled_wins:
  "a \<noteq> [] \<and> b \<noteq> [] \<longrightarrow>
   currentSymbol (overlapping_fetches a b rb ra st) = b \<and>
   current_position_el (overlapping_fetches a b rb ra st) =
     current_position_el (loadPerformanceData_settle a ra (performance_symbol_change a st)) \<and>
   (ok status \<and> ra = Response status (Some (Payload data)) \<longrightarrow>
      performance_section (overlapping_fetches a b rb ra st) =
        performance_section (loadPerformanceData_settle a ra (performance_symbol_change a st)) \<and>
      current_position_el (overlapping_fetches a b rb ra st) =
        current_position_el (updateCurrentPosition (current_position data) st))"
proof (intro conjI impI)
  show "currentSymbol (overlapping_fetches a b rb ra st) = b"
    by (simp add: overlapping_fetches_def settle_currentSymbol change_currentSymbol)
  show "current_position_el (overlapping_fetches a b rb ra st) =
     current_position_el (loadPerformanceData_settle a ra (performance_symbol_change a st))"
    unfolding overlapping_fetches_def by (rule settle_panel_indep)
next
  assume h: "ok status \<and> ra = Response status (Some (Payload data))"
  then show "performance_section (overlapping_fetches a b rb ra st) =
        performance_section (loadPerformanceData_settle a ra (performance_symbol_change a st))"
    unfolding overlapping_fetches_def using payload_section_indep by blast
  from h show "current_position_el (overlapping_fetches a b rb ra st) =
        current_position_el (updateCurrentPosition (current_position data) st)"
    unfolding overlapping_fetches_def
    by (simp add: settle_panel) (rule position_indep)
qed

text \<open>
  The race of C2 with BTCUSDT requested first and ETHUSDT second: the chooser points at
  ETHUSDT while the position region reports on BTCUSDT.
\<close>

theorem last_settled_wins_witness:
  "''BTCUSDT'' \<noteq> [] \<and> ''ETHUSDT'' \<noteq> [] \<and> ok 200 \<and>
   currentSymbol
     (overlapping_fetches ''BTCUSDT'' ''ETHUSDT''
        (Response 200 (Some (Payload (example_payload ''ETHUSDT'' []))))
        (Response 200 (Some (Payload (example_payload ''BTCUSDT'' [])))) initial_page) = ''ETHUSDT'' \<and>
   current_position_el
     (overlapping_fetches ''BTCUSDT'' ''ETHUSDT''
        (Response 200 (Some (Payload (example_payload ''ETHUSDT'' []))))
        (Response 200 (Some (Payload (example_payload ''BTCUSDT'' [])))) initial_page)
     = NoActivePosition ''BTCUSDT''"
proof -
  have k: "ok 200" by (simp add: ok_def)
  have n: "''BTCUSDT'' \<noteq> [] \<and> ''ETHUSDT'' \<noteq> []" by simp
  have p: "current_position_el
             (updateCurrentPosition (current_position (example_payload ''BTCUSDT'' [])) initial_page)
           = NoActivePosition ''BTCUSDT''"
    by (simp add: example_payload_def updateCurrentPosition_def)
  have "currentSymbol
     (overlapping_fetches ''BTCUSDT'' ''ETHUSDT''
        (Response 200 (Some (Payload (example_payload ''ETHUSDT'' []))))
        (Response 200 (Some (Payload (example_payload ''BTCUSDT'' [])))) initial_page) = ''ETHUSDT'' \<and>
   current_position_el
     (overlapping_fetches ''BTCUSDT'' ''ETHUSDT''
        (Response 200 (Some (Payload (example_payload ''ETHUSDT'' []))))
        (Response 200 (Some (Payload (example_payload ''BTCUSDT'' [])))) initial_page)
     = current_position_el
         (updateCurrentPosition (current_position (example_payload ''BTCUSDT'' [])) initial_page)"
    using k n
      last_settled_wins
        [of "''BTCUSDT''" "''ETHUSDT''"
            "Response 200 (Some (Payload (example_payload ''ETHUSDT'' [])))"
            "Response 200 (Some (Payload (example_payload ''BTCUSDT'' [])))"
            initial_page 200 "example_payload ''BTCUSDT'' []"]
    by blast
  then show ?thesis using k n p by simp
qed

lemma additionalInfo_iff:
  "additionalInfo err =
     (if (\<exists>p t. err = p @ ''Binance client is not initialized'' @ t) \<or>
         (\<exists>p t. err = p @ ''API keys'' @ t) \<or>
         (\<exists>p t. err = p @ none_type_text @ t)
      then api_key_info else warm_up_info)"
  unfolding additionalInfo_def str_includes_iff ..

lemma infos_differ: "api_key_info \<noteq> warm_up_info"
  by (simp add: api_key_info_def warm_up_info_def)

lemma empty_no_match: "additionalInfo [] = warm_up_info"
  by (simp add: additionalInfo_def none_type_text_def)

text \<open>
  C7. For every error text carried by a parsed performance response with a successful
  status, the error panel shows the API-key guidance if and only if the text contains
  \<open>Binance client is not initialized\<close>, \<open>API keys\<close> or the \<open>NoneType\<close> message as a
  substring; for every other text it shows the warm-up guidance. The two guidance
  texts are different.
\<close>

theorem error_guidance:
  "api_key_info \<noteq> warm_up_info \<and>
   (ok status \<longrightarrow>
     (\<exists>msg. current_position_el
              (loadPerformanceData_settle symb (Response status (Some (ErrorBody err))) st) =
            ErrorPanel msg
              (if (\<exists>p t. err = p @ ''Binance client is not initialized'' @ t) \<or>
                  (\<exists>p t. err = p @ ''API keys'' @ t) \<or>
                  (\<exists>p t. err = p @ none_type_text @ t)
               then api_key_info else warm_up_info)
              symb))"
proof (intro conjI impI)
  show "api_key_info \<noteq> warm_up_info" by (rule infos_differ)
next
  assume "ok status"
  then have "current_position_el
              (loadPerformanceData_settle symb (Response status (Some (ErrorBody err))) st) =
        (if err \<noteq> [] then ErrorPanel err (additionalInfo err) symb
         else ErrorPanel ''An unexpected error occurred while loading performance data.''
                (additionalInfo err) symb)"
    by (simp add: settle_panel empty_no_match)
  then show "\<exists>msg. current_position_el
              (loadPerformanceData_settle symb (Response status (Some (ErrorBody err))) st) =
            ErrorPanel msg
              (if (\<exists>p t. err = p @ ''Binance client is not initialized'' @ t) \<or>
                  (\<exists>p t. err = p @ ''API keys'' @ t) \<or>
                  (\<exists>p t. err = p @ none_type_text @ t)
               then api_key_info else warm_up_info)
              symb"
    unfolding additionalInfo_iff[symmetric] by (cases "err = []") auto
qed

text \<open>
  Two error texts: one names the uninitialised exchange client and the API keys, the
  other reports missing data.
\<close>

theorem error_guidance_witness:
  "ok 200 \<and>
   (\<exists>msg. current_position_el
            (loadPerformanceData_settle ''BTCUSDT''
               (Response 200 (Some (ErrorBody ''Binance client is not initialized. Please check your API keys.'')))
               initial_page) = ErrorPanel msg api_key_info ''BTCUSDT'') \<and>
   (\<exists>msg. current_position_el
            (loadPerformanceData_settle ''BTCUSDT''
               (Response 200 (Some (ErrorBody ''Not enough data for BTCUSDT'')))
               initial_page) = ErrorPanel msg warm_up_info ''BTCUSDT'')"
proof -
  have k: "ok 200" by (simp add: ok_def)
  have 1: "additionalInfo ''Binance client is not initialized. Please check your API keys.'' = api_key_info"
    by (simp add: additionalInfo_def)
  have 2: "additionalInfo ''Not enough data for BTCUSDT'' = warm_up_info"
    by (simp add: additionalInfo_def none_type_text_def)
  show ?thesis
    using k
      error_guidance[of 200 "''BTCUSDT''"
        "''Binance client is not initialized. Please check your API keys.''" initial_page]
      error_guidance[of 200 "''BTCUSDT''" "''Not enough data for BTCUSDT''" initial_page]
    unfolding additionalInfo_iff[symmetric] 1 2 by blast
qed

section \<open>Claims about the response status and the configuration form\<close>

text \<open>
  Six of the seven continuations never look at the response status: two responses that
  carry the same body are handled alike, whatever their statuses. Only the performance
  continuation turns a status outside 200 to 299 into the failure path.
\<close>

lemma status_ignored:
  "loadConfig_settle (Response status body) st = loadConfig_settle (Response status' body) st"
  "saveConfig_settle (Response status obody) st = saveConfig_settle (Response status' obody) st"
  "loadTradingSymbols_settle (Response status sbody) st =
     loadTradingSymbols_settle (Response status' sbody) st"
  "loadAvailableSymbols_settle (Response status sbody) st =
     loadAvailableSymbols_settle (Response status' sbody) st"
  "saveSelectedSymbols_settle (Response status obody) st =
     saveSelectedSymbols_settle (Response status' obody) st"
  "runStrategy_settle symb (Response status obody) st =
     runStrategy_settle symb (Response status' obody) st"
  by (simp_all add: loadConfig_settle_def saveConfig_settle_def loadTradingSymbols_settle_def
      loadAvailableSymbols_settle_def saveSelectedSymbols_settle_def runStrategy_settle_def)

lemma performance_non_ok:
  "\<not> ok status \<Longrightarrow>
   loadPerformanceData_settle symb (Response status body) st = loadPerformanceData_catch symb st"
  by (simp add: loadPerformanceData_settle_def)

text \<open>
  C3 asks that a response with a status outside 200 to 299 is handled as a failure on
  every call. The configuration calls do otherwise. A configuration load answered with
  status 500 and the body \<open>{"USE_TESTNET": "true"}\<close> fills the form (the box becomes
  checked), hides the loading indicator and raises no alert; a configuration save
  answered with status 500 and the body \<open>{"success": true}\<close> raises the success alert.
\<close>

theorem config_calls_ignore_status:
  "\<not> ok 500 \<and>
   loadConfig_settle (Response 500 (Some [(''USE_TESTNET'', ''true'')]))
     (loadConfig (initial_page\<lparr>config_form_el := [example_checkbox ''USE_TESTNET'' False]\<rparr>))
   = initial_page\<lparr>config_form_el := [example_checkbox ''USE_TESTNET'' True]\<rparr> \<and>
   saveConfig_settle (Response 500 (Some \<lparr>success = True, action = Missing, error = Missing\<rparr>))
     (fst (saveConfig initial_page))
   = initial_page\<lparr>alerts := [(''Configuration saved successfully!'', ''success'')],
                  active_symbols_count_el := Count 0\<rparr>"
  by (simp add: ok_def loadConfig_settle_def loadConfig_then_def loadConfig_def showLoading_def
       hideLoading_def initial_page_def toLowerCase_def lower_char_def saveConfig_settle_def
       saveConfig_def showAlert_def updateDashboardStats_def example_checkbox_def Let_def)

text \<open>How \<open>set\<close> and \<open>getAll\<close> of form data interact.\<close>

lemma getAll_replace_same:
  "k \<in> set (map fst fd) \<Longrightarrow> formData_getAll (replace_entry k v fd) k = [v]"
proof (induction fd)
  case Nil
  then show ?case by simp
next
  case (Cons e es)
  show ?case
  proof (cases "fst e = k")
    case True
    have "filter (\<lambda>e. fst e = k) (filter (\<lambda>e'. fst e' \<noteq> k) es) = []"
      by (induction es) auto
    with True show ?thesis by (simp add: formData_getAll_def)
  next
    case False
    with Cons show ?thesis by (auto simp: formData_getAll_def)
  qed
qed

lemma getAll_replace_other:
  "k' \<noteq> k \<Longrightarrow> formData_getAll (replace_entry k v fd) k' = formData_getAll fd k'"
proof (induction fd)
  case Nil
  then show ?case by simp
next
  case (Cons e es)
  have "filter (\<lambda>e. fst e = k') (filter (\<lambda>e'. fst e' \<noteq> k) es) = filter (\<lambda>e. fst e = k') es"
    using Cons.prems by (induction es) auto
  with Cons show ?case by (auto simp: formData_getAll_def)
qed

lemma getAll_set_same: "formData_getAll (formData_set fd k v) k = [v]"
proof (cases "k \<in> set (map fst fd)")
  case True
  then show ?thesis by (simp add: formData_set_def getAll_replace_same)
next
  case False
  then have "filter (\<lambda>e. fst e = k) fd = []" by (induction fd) auto
  with False show ?thesis by (simp add: formData_set_def formData_getAll_def)
qed

lemma getAll_set_other:
  "k' \<noteq> k \<Longrightarrow> formData_getAll (formData_set fd k v) k' = formData_getAll fd k'"
  by (cases "k \<in> set (map fst fd)")
     (simp_all add: formData_set_def getAll_replace_other, simp add: formData_getAll_def)

text \<open>
  The loop over the checkboxes: once it has run, every unchecked checkbox it visited
  has the single value \<open>False\<close>, because later steps only ever write \<open>False\<close> again
  or touch other names.
\<close>

lemma force_all_unchecked:
  assumes "c \<in> set cbs" "\<not> ctl_checked c"
  shows "formData_getAll (foldl force_unchecked fd cbs) (ctl_name c) = [''False'']"
  using assms
proof (induction cbs arbitrary: fd rule: rev_induct)
  case Nil
  then show ?case by simp
next
  case (snoc x xs)
  define acc where "acc = foldl force_unchecked fd xs"
  have step: "foldl force_unchecked fd (xs @ [x]) = force_unchecked acc x"
    by (simp add: acc_def)
  show ?case
  proof (cases "\<not> ctl_checked x \<and> ctl_name x = ctl_name c")
    case True
    then show ?thesis unfolding step by (simp add: force_unchecked_def getAll_set_same)
  next
    case False
    then have "x \<noteq> c" using snoc.prems by auto
    then have "c \<in> set xs" using snoc.prems by simp
    then have ih: "formData_getAll acc (ctl_name c) = [''False'']"
      unfolding acc_def using snoc.IH snoc.prems(2) by blast
    from False show ?thesis unfolding step
      by (auto simp: force_unchecked_def ih getAll_set_other)
  qed
qed

text \<open>
  C8. On a configuration save, for every checkbox of the form that is not checked, the
  form data sent as the request body holds under the checkbox's name exactly one
  value, the text \<open>False\<close>: the name is never missing from the body.
\<close>

theorem unchecked_sent_as_False:
  assumes "c \<in> set (config_form_el st)" "ctl_type c = Checkbox" "\<not> ctl_checked c"
  shows "formData_getAll (snd (saveConfig st)) (ctl_name c) = [''False'']"
  unfolding saveConfig_def saveConfig_body_def Let_def snd_conv
  by (rule force_all_unchecked) (use assms in auto)

text \<open>
  A form with a text input, an unchecked and a checked box: plain form data would omit
  the unchecked box, the body that is sent lists it with \<open>False\<close>.
\<close>

theorem unchecked_sent_as_False_witness:
  "example_checkbox ''USE_TESTNET'' False
     \<in> set (config_form_el (initial_page\<lparr>config_form_el :=
          [example_input ''BINANCE_API_KEY'' ''k'', example_checkbox ''USE_TESTNET'' False,
           example_checkbox ''USE_ML_FILTER'' True]\<rparr>)) \<and>
   ctl_type (example_checkbox ''USE_TESTNET'' False) = Checkbox \<and>
   \<not> ctl_checked (example_checkbox ''USE_TESTNET'' False) \<and>
   formData_getAll
     (snd (saveConfig (initial_page\<lparr>config_form_el :=
          [example_input ''BINANCE_API_KEY'' ''k'', example_checkbox ''USE_TESTNET'' False,
           example_checkbox ''USE_ML_FILTER'' True]\<rparr>)))
     ''USE_TESTNET'' = [''False'']"
  using unchecked_sent_as_False
          [of "example_checkbox ''USE_TESTNET'' False"
              "initial_page\<lparr>config_form_el :=
                 [example_input ''BINANCE_API_KEY'' ''k'', example_checkbox ''USE_TESTNET'' False,
                  example_checkbox ''USE_ML_FILTER'' True]\<rparr>"]
  by (simp add: example_checkbox_def)

lemma saveConfig_body_example:
  "FormData [example_input ''BINANCE_API_KEY'' ''k'', example_checkbox ''USE_TESTNET'' False,
             example_checkbox ''USE_ML_FILTER'' True]
     = [(''BINANCE_API_KEY'', ''k''), (''USE_ML_FILTER'', ''True'')] \<and>
   saveConfig_body [example_input ''BINANCE_API_KEY'' ''k'', example_checkbox ''USE_TESTNET'' False,
             example_checkbox ''USE_ML_FILTER'' True]
     = [(''BINANCE_API_KEY'', ''k''), (''USE_ML_FILTER'', ''True''), (''USE_TESTNET'', ''False'')]"
  by (simp add: saveConfig_body_def FormData_def force_unchecked_def formData_set_def
       example_checkbox_def example_input_def)

end
